theory Spec2Isabelle
  imports Complex_Main
begin

section \<open>Schema of the migration\<close>

text \<open>
  The tables of the migration, one record per table, a table being the list of its rows in
  scan order. A \<open>UUID\<close> is kept as its canonical text (the form \<open>auth.uid()::text\<close> and the
  client's \<open>user.id\<close> have); a timestamp is a number of milliseconds. A nullable column
  is an \<open>option\<close>.
\<close>

type_synonym uuid = string
type_synonym timestamp = int

datatype app_role = teacher | student

datatype submission_status = pending | submitted | graded

text \<open>\<open>auth.users\<close>, owned by the identity provider: the columns the trigger reads.
  \<open>meta_full_name\<close> is \<open>raw_user_meta_data ->> 'full_name'\<close>.\<close>

record auth_users_row =
  u_id :: uuid
  u_email :: "string option"
  meta_full_name :: "string option"

record profiles_row =
  p_id :: uuid
  full_name :: string
  email :: string
  p_created_at :: timestamp
  p_updated_at :: timestamp

record user_roles_row =
  ur_id :: uuid
  user_id :: uuid
  role :: app_role

record assignments_row =
  a_id :: uuid
  title :: string
  description :: "string option"
  subject :: string
  due_date :: timestamp
  max_score :: int
  created_by :: uuid
  a_created_at :: timestamp
  a_updated_at :: timestamp

record submissions_row =
  s_id :: uuid
  assignment_id :: uuid
  student_id :: uuid
  file_url :: string
  file_name :: string
  submitted_at :: timestamp
  grade :: "int option"
  feedback :: "string option"
  status :: submission_status
  graded_at :: "timestamp option"

record storage_object =
  bucket_id :: string
  name :: string

record db =
  auth_users :: "auth_users_row list"
  profiles :: "profiles_row list"
  user_roles :: "user_roles_row list"
  assignments :: "assignments_row list"
  submissions :: "submissions_row list"

subsection \<open>Text given for a \<open>UUID\<close> column\<close>








section \<open>Role lookup\<close>

text \<open>
  \<open>has_role\<close> and \<open>get_user_role\<close> read \<open>user_roles\<close> with the definer's rights, so they see
  the whole table. Their argument is \<open>auth.uid()\<close> in every policy, which is \<open>NULL\<close> for a
  request without identity: \<open>user_id = NULL\<close> selects no row. \<open>LIMIT 1\<close> without an order
  keeps the first row of the scan.
\<close>

definition has_role :: "user_roles_row list \<Rightarrow> uuid option \<Rightarrow> app_role \<Rightarrow> bool" where
  "has_role ur uid r = list_ex (\<lambda>row. Some (user_id row) = uid \<and> role row = r) ur"

definition get_user_role :: "user_roles_row list \<Rightarrow> uuid option \<Rightarrow> app_role option" where
  "get_user_role ur uid =
     (case filter (\<lambda>row. Some (user_id row) = uid) ur of
        [] \<Rightarrow> None
      | row # _ \<Rightarrow> Some (role row))"

text \<open>The constraints of \<open>user_roles\<close>: the primary key and \<open>UNIQUE (user_id, role)\<close>.\<close>

definition user_roles_unique :: "user_roles_row list \<Rightarrow> bool" where
  "user_roles_unique ur =
     (distinct (map ur_id ur) \<and> distinct (map (\<lambda>row. (user_id row, role row)) ur))"

text \<open>An identity with at most one row in \<open>user_roles\<close>.\<close>

definition single_role :: "user_roles_row list \<Rightarrow> uuid \<Rightarrow> bool" where
  "single_role ur x = (length (filter (\<lambda>row. user_id row = x) ur) \<le> 1)"

text \<open>A student actor: an identity of the student kind, the two kinds being exclusive.\<close>

definition student_actor :: "user_roles_row list \<Rightarrow> uuid \<Rightarrow> bool" where
  "student_actor ur x = (has_role ur (Some x) student \<and> \<not> has_role ur (Some x) teacher)"

section \<open>Row-level security policies\<close>

text \<open>
  One predicate per \<open>CREATE POLICY\<close>, over \<open>auth.uid()\<close> and the row. A comparison with a
  \<open>NULL\<close> \<open>auth.uid()\<close> is not true, so the row is refused.
\<close>

definition Users_can_view_their_own_profile :: "uuid option \<Rightarrow> profiles_row \<Rightarrow> bool" where
  "Users_can_view_their_own_profile uid r = (uid = Some (p_id r))"

definition Users_can_update_their_own_profile :: "uuid option \<Rightarrow> profiles_row \<Rightarrow> bool" where
  "Users_can_update_their_own_profile uid r = (uid = Some (p_id r))"

definition Users_can_insert_their_own_profile :: "uuid option \<Rightarrow> profiles_row \<Rightarrow> bool" where
  "Users_can_insert_their_own_profile uid r = (uid = Some (p_id r))"

definition Teachers_can_view_all_profiles ::
  "user_roles_row list \<Rightarrow> uuid option \<Rightarrow> profiles_row \<Rightarrow> bool" where
  "Teachers_can_view_all_profiles ur uid r = has_role ur uid teacher"

definition Users_can_view_their_own_role :: "uuid option \<Rightarrow> user_roles_row \<Rightarrow> bool" where
  "Users_can_view_their_own_role uid r = (uid = Some (user_id r))"

definition Users_can_insert_their_own_role_during_signup ::
  "uuid option \<Rightarrow> user_roles_row \<Rightarrow> bool" where
  "Users_can_insert_their_own_role_during_signup uid r = (uid = Some (user_id r))"

text \<open>\<open>TO authenticated USING (true)\<close>: the request carries an identity.\<close>

definition Everyone_authenticated_can_view_assignments ::
  "uuid option \<Rightarrow> assignments_row \<Rightarrow> bool" where
  "Everyone_authenticated_can_view_assignments uid r = (uid \<noteq> None)"

definition Teachers_can_create_assignments ::
  "user_roles_row list \<Rightarrow> uuid option \<Rightarrow> assignments_row \<Rightarrow> bool" where
  "Teachers_can_create_assignments ur uid r =
     (has_role ur uid teacher \<and> uid = Some (created_by r))"

definition Teachers_can_update_their_own_assignments ::
  "user_roles_row list \<Rightarrow> uuid option \<Rightarrow> assignments_row \<Rightarrow> bool" where
  "Teachers_can_update_their_own_assignments ur uid r =
     (has_role ur uid teacher \<and> uid = Some (created_by r))"

definition Teachers_can_delete_their_own_assignments ::
  "user_roles_row list \<Rightarrow> uuid option \<Rightarrow> assignments_row \<Rightarrow> bool" where
  "Teachers_can_delete_their_own_assignments ur uid r =
     (has_role ur uid teacher \<and> uid = Some (created_by r))"

definition Students_can_view_their_own_submissions ::
  "uuid option \<Rightarrow> submissions_row \<Rightarrow> bool" where
  "Students_can_view_their_own_submissions uid r = (uid = Some (student_id r))"

definition Teachers_can_view_all_submissions ::
  "user_roles_row list \<Rightarrow> uuid option \<Rightarrow> submissions_row \<Rightarrow> bool" where
  "Teachers_can_view_all_submissions ur uid r = has_role ur uid teacher"

definition Students_can_submit_assignments ::
  "user_roles_row list \<Rightarrow> uuid option \<Rightarrow> submissions_row \<Rightarrow> bool" where
  "Students_can_submit_assignments ur uid r =
     (has_role ur uid student \<and> uid = Some (student_id r))"

definition Students_can_update_their_own_pending_submissions ::
  "uuid option \<Rightarrow> submissions_row \<Rightarrow> bool" where
  "Students_can_update_their_own_pending_submissions uid r =
     (uid = Some (student_id r) \<and> status r = submitted)"

definition Teachers_can_grade_submissions ::
  "user_roles_row list \<Rightarrow> uuid option \<Rightarrow> submissions_row \<Rightarrow> bool" where
  "Teachers_can_grade_submissions ur uid r = has_role ur uid teacher"

subsection \<open>Policies of one table and command together\<close>

text \<open>
  All policies here are permissive: the policies of one command are joined by \<open>OR\<close>.
  \<open>SELECT\<close> and \<open>DELETE\<close> test the stored row (\<open>USING\<close>), \<open>INSERT\<close> the new row
  (\<open>WITH CHECK\<close>). \<open>UPDATE\<close> tests the stored row with \<open>USING\<close> and the row to be written
  with \<open>WITH CHECK\<close>; a policy written with \<open>USING\<close> alone, as every \<open>UPDATE\<close> policy of
  the migration, has that expression for both. A table with no policy for a command
  refuses it.
\<close>

definition profiles_select :: "user_roles_row list \<Rightarrow> uuid option \<Rightarrow> profiles_row \<Rightarrow> bool" where
  "profiles_select ur uid r =
     (Users_can_view_their_own_profile uid r \<or> Teachers_can_view_all_profiles ur uid r)"

definition profiles_insert_check :: "uuid option \<Rightarrow> profiles_row \<Rightarrow> bool" where
  "profiles_insert_check uid r = Users_can_insert_their_own_profile uid r"

definition profiles_update_using :: "uuid option \<Rightarrow> profiles_row \<Rightarrow> bool" where
  "profiles_update_using uid r = Users_can_update_their_own_profile uid r"

definition profiles_update_check :: "uuid option \<Rightarrow> profiles_row \<Rightarrow> bool" where
  "profiles_update_check uid r = Users_can_update_their_own_profile uid r"

definition user_roles_select :: "uuid option \<Rightarrow> user_roles_row \<Rightarrow> bool" where
  "user_roles_select uid r = Users_can_view_their_own_role uid r"

definition user_roles_insert_check :: "uuid option \<Rightarrow> user_roles_row \<Rightarrow> bool" where
  "user_roles_insert_check uid r = Users_can_insert_their_own_role_during_signup uid r"

definition assignments_select :: "uuid option \<Rightarrow> assignments_row \<Rightarrow> bool" where
  "assignments_select uid r = Everyone_authenticated_can_view_assignments uid r"

definition assignments_insert_check ::
  "user_roles_row list \<Rightarrow> uuid option \<Rightarrow> assignments_row \<Rightarrow> bool" where
  "assignments_insert_check ur uid r = Teachers_can_create_assignments ur uid r"

definition assignments_update_using ::
  "user_roles_row list \<Rightarrow> uuid option \<Rightarrow> assignments_row \<Rightarrow> bool" where
  "assignments_update_using ur uid r = Teachers_can_update_their_own_assignments ur uid r"

definition assignments_update_check ::
  "user_roles_row list \<Rightarrow> uuid option \<Rightarrow> assignments_row \<Rightarrow> bool" where
  "assignments_update_check ur uid r = Teachers_can_update_their_own_assignments ur uid r"

definition assignments_delete_using ::
  "user_roles_row list \<Rightarrow> uuid option \<Rightarrow> assignments_row \<Rightarrow> bool" where
  "assignments_delete_using ur uid r = Teachers_can_delete_their_own_assignments ur uid r"

definition submissions_select ::
  "user_roles_row list \<Rightarrow> uuid option \<Rightarrow> submissions_row \<Rightarrow> bool" where
  "submissions_select ur uid r =
     (Students_can_view_their_own_submissions uid r \<or> Teachers_can_view_all_submissions ur uid r)"

definition submissions_insert_check ::
  "user_roles_row list \<Rightarrow> uuid option \<Rightarrow> submissions_row \<Rightarrow> bool" where
  "submissions_insert_check ur uid r = Students_can_submit_assignments ur uid r"

definition submissions_update_using ::
  "user_roles_row list \<Rightarrow> uuid option \<Rightarrow> submissions_row \<Rightarrow> bool" where
  "submissions_update_using ur uid r =
     (Students_can_update_their_own_pending_submissions uid r
      \<or> Teachers_can_grade_submissions ur uid r)"

definition submissions_update_check ::
  "user_roles_row list \<Rightarrow> uuid option \<Rightarrow> submissions_row \<Rightarrow> bool" where
  "submissions_update_check ur uid r =
     (Students_can_update_their_own_pending_submissions uid r
      \<or> Teachers_can_grade_submissions ur uid r)"


section \<open>File storage\<close>

text \<open>
  \<open>split_on c s\<close> cuts \<open>s\<close> at every \<open>c\<close>, as JavaScript's \<open>split\<close> with a one-character
  separator does: the result is never empty. \<open>string_to_array\<close> of the database does the
  same, except that the empty text gives the empty array.
\<close>

fun split_on :: "char \<Rightarrow> string \<Rightarrow> string list" where
  "split_on c [] = [[]]"
| "split_on c (x # xs) =
     (if x = c then [] # split_on c xs
      else (case split_on c xs of
              [] \<Rightarrow> [[x]]
            | y # ys \<Rightarrow> (x # y) # ys))"

definition string_to_array :: "string \<Rightarrow> char \<Rightarrow> string list" where
  "string_to_array s c = (if s = [] then [] else split_on c s)"

text \<open>
  \<open>storage.foldername\<close> belongs to the storage service: it splits the object name at
  \<open>/\<close> and drops the last part, the file name, leaving the folders. \<open>array_first\<close> is the
  subscript \<open>[1]\<close>, which is \<open>NULL\<close> on an array without a first element.
\<close>

definition foldername :: "string \<Rightarrow> string list" where
  "foldername nm = butlast (string_to_array nm (CHR ''/''))"

definition array_first :: "'a list \<Rightarrow> 'a option" where
  "array_first xs = (case xs of [] \<Rightarrow> None | x # _ \<Rightarrow> Some x)"

text \<open>The text of a \<open>UUID\<close>: 36 characters, lower-case hexadecimal digits and hyphens.\<close>

definition is_uuid_text :: "string \<Rightarrow> bool" where
  "is_uuid_text s = (length s = 36 \<and> list_all (\<lambda>c. c \<in> set ''0123456789abcdef-'') s)"

text \<open>The first path segment of an object name, in the words of the specification: the
  first of the parts between the \<open>/\<close> of the name.\<close>

definition first_path_segment :: "string \<Rightarrow> string option" where
  "first_path_segment nm = array_first (string_to_array nm (CHR ''/''))"

definition Students_can_upload_their_own_submissions ::
  "uuid option \<Rightarrow> storage_object \<Rightarrow> bool" where
  "Students_can_upload_their_own_submissions uid obj =
     (bucket_id obj = ''submissions'' \<and> uid \<noteq> None \<and> uid = array_first (foldername (name obj)))"

definition Students_can_view_their_own_files :: "uuid option \<Rightarrow> storage_object \<Rightarrow> bool" where
  "Students_can_view_their_own_files uid obj =
     (bucket_id obj = ''submissions'' \<and> uid \<noteq> None \<and> uid = array_first (foldername (name obj)))"

definition Teachers_can_view_all_submission_files ::
  "user_roles_row list \<Rightarrow> uuid option \<Rightarrow> storage_object \<Rightarrow> bool" where
  "Teachers_can_view_all_submission_files ur uid obj =
     (bucket_id obj = ''submissions'' \<and> has_role ur uid teacher)"

definition Teachers_can_download_submission_files ::
  "user_roles_row list \<Rightarrow> uuid option \<Rightarrow> storage_object \<Rightarrow> bool" where
  "Teachers_can_download_submission_files ur uid obj =
     (bucket_id obj = ''submissions'' \<and> has_role ur uid teacher)"

definition objects_insert_check :: "uuid option \<Rightarrow> storage_object \<Rightarrow> bool" where
  "objects_insert_check uid obj = Students_can_upload_their_own_submissions uid obj"

definition objects_select ::
  "user_roles_row list \<Rightarrow> uuid option \<Rightarrow> storage_object \<Rightarrow> bool" where
  "objects_select ur uid obj =
     (Students_can_view_their_own_files uid obj
      \<or> Teachers_can_view_all_submission_files ur uid obj
      \<or> Teachers_can_download_submission_files ur uid obj)"

section \<open>Statements against the database\<close>

datatype db_error =
  RLS_violation | Unique_violation | Foreign_key_violation | Not_null_violation | Invalid_input

definition empty_db :: db where
  "empty_db = \<lparr>auth_users = [], profiles = [], user_roles = [], assignments = [],
     submissions = []\<rparr>"

text \<open>
  The keys of the schema: the primary keys, \<open>UNIQUE (user_id, role)\<close> and
  \<open>UNIQUE (assignment_id, student_id)\<close>; and its \<open>REFERENCES\<close> clauses.
\<close>

definition unique_ok :: "db \<Rightarrow> bool" where
  "unique_ok d =
     (distinct (map u_id (auth_users d)) \<and>
      distinct (map p_id (profiles d)) \<and>
      user_roles_unique (user_roles d) \<and>
      distinct (map a_id (assignments d)) \<and>
      distinct (map s_id (submissions d)) \<and>
      distinct (map (\<lambda>s. (assignment_id s, student_id s)) (submissions d)))"

definition references_ok :: "db \<Rightarrow> bool" where
  "references_ok d =
     (let users = set (map u_id (auth_users d)) in
      list_all (\<lambda>p. p_id p \<in> users) (profiles d) \<and>
      list_all (\<lambda>r. user_id r \<in> users) (user_roles d) \<and>
      list_all (\<lambda>a. created_by a \<in> users) (assignments d) \<and>
      list_all (\<lambda>s. assignment_id s \<in> set (map a_id (assignments d)) \<and> student_id s \<in> users)
        (submissions d))"

text \<open>A statement is atomic: its writes are kept when every constraint holds of the
  result, and the statement fails as a whole otherwise.\<close>

definition commit :: "db \<Rightarrow> db_error + db" where
  "commit d =
     (if \<not> unique_ok d then Inl Unique_violation
      else if \<not> references_ok d then Inl Foreign_key_violation
      else Inr d)"

subsection \<open>Triggers\<close>

text \<open>
  \<open>handle_new_user\<close>, \<open>AFTER INSERT ON auth.users\<close>: the profile row it inserts, with the
  column defaults \<open>NOW()\<close>. \<open>COALESCE\<close> takes \<open>'User'\<close> when the metadata has no
  \<open>full_name\<close>; \<open>email\<close> is \<open>NOT NULL\<close> in \<open>profiles\<close> and nullable in \<open>auth.users\<close>.
\<close>

definition handle_new_user :: "timestamp \<Rightarrow> auth_users_row \<Rightarrow> db_error + profiles_row" where
  "handle_new_user now NEW =
     (case u_email NEW of
        None \<Rightarrow> Inl Not_null_violation
      | Some e \<Rightarrow>
          Inr \<lparr>p_id = u_id NEW,
               full_name = (case meta_full_name NEW of None \<Rightarrow> ''User'' | Some n \<Rightarrow> n),
               email = e, p_created_at = now, p_updated_at = now\<rparr>)"

text \<open>\<open>update_updated_at_column\<close>, as the two \<open>BEFORE UPDATE\<close> triggers run it.\<close>

definition update_profiles_updated_at :: "timestamp \<Rightarrow> profiles_row \<Rightarrow> profiles_row" where
  "update_profiles_updated_at now NEW = NEW\<lparr>p_updated_at := now\<rparr>"

definition update_assignments_updated_at ::
  "timestamp \<Rightarrow> assignments_row \<Rightarrow> assignments_row" where
  "update_assignments_updated_at now NEW = NEW\<lparr>a_updated_at := now\<rparr>"

subsection \<open>Requests\<close>

text \<open>
  The identity provider creates and deletes identities; every other request is a client's,
  with its \<open>auth.uid()\<close>. An \<open>UPDATE\<close> or \<open>DELETE\<close> has a \<open>WHERE\<close> condition, an \<open>UPDATE\<close>
  its \<open>SET\<close> clause as a function of the stored row. No table has a \<open>DELETE\<close> policy but
  \<open>assignments\<close>, and \<open>user_roles\<close> has no \<open>UPDATE\<close> policy.
\<close>

datatype request =
  Create_user auth_users_row
| Delete_user uuid
| Insert_profiles "uuid option" profiles_row
| Update_profiles "uuid option" "profiles_row \<Rightarrow> bool" "profiles_row \<Rightarrow> profiles_row"
| Insert_user_roles "uuid option" user_roles_row
| Insert_assignments "uuid option" assignments_row
| Update_assignments "uuid option" "assignments_row \<Rightarrow> bool"
    "assignments_row \<Rightarrow> assignments_row"
| Delete_assignments "uuid option" "assignments_row \<Rightarrow> bool"
| Insert_submissions "uuid option" submissions_row
| Update_submissions "uuid option" "submissions_row \<Rightarrow> bool"
    "submissions_row \<Rightarrow> submissions_row"

text \<open>
  An \<open>UPDATE\<close> works on the rows that meet its \<open>WHERE\<close> condition and the \<open>USING\<close>
  policies; the other rows are not seen, without an error. Each new row, after the
  \<open>BEFORE UPDATE\<close> trigger, must pass \<open>WITH CHECK\<close>, or the statement fails. (A row the
  \<open>UPDATE\<close> policies of a table admit is also one its \<open>SELECT\<close> policies admit, so
  reading the row for the \<open>WHERE\<close> condition refuses nothing more.)
\<close>

definition update_rows ::
  "('r \<Rightarrow> bool) \<Rightarrow> ('r \<Rightarrow> bool) \<Rightarrow> ('r \<Rightarrow> 'r) \<Rightarrow> 'r list \<Rightarrow> db_error + 'r list" where
  "update_rows hit chk f rows =
     (if list_all (\<lambda>r. hit r \<longrightarrow> chk (f r)) rows
      then Inr (map (\<lambda>r. if hit r then f r else r) rows)
      else Inl RLS_violation)"

text \<open>\<open>ON DELETE CASCADE\<close>, from \<open>assignments\<close> and from \<open>auth.users\<close>.\<close>

definition delete_assignments_where :: "(assignments_row \<Rightarrow> bool) \<Rightarrow> db \<Rightarrow> db" where
  "delete_assignments_where gone d =
     (let ids = set (map a_id (filter gone (assignments d))) in
      d\<lparr>assignments := filter (\<lambda>a. \<not> gone a) (assignments d),
        submissions := filter (\<lambda>s. assignment_id s \<notin> ids) (submissions d)\<rparr>)"

definition delete_user :: "uuid \<Rightarrow> db \<Rightarrow> db" where
  "delete_user x d =
     (let d1 = delete_assignments_where (\<lambda>a. created_by a = x) d in
      d1\<lparr>auth_users := filter (\<lambda>u. u_id u \<noteq> x) (auth_users d1),
         profiles := filter (\<lambda>p. p_id p \<noteq> x) (profiles d1),
         user_roles := filter (\<lambda>r. user_id r \<noteq> x) (user_roles d1),
         submissions := filter (\<lambda>s. student_id s \<noteq> x) (submissions d1)\<rparr>)"

fun exec :: "timestamp \<Rightarrow> db \<Rightarrow> request \<Rightarrow> db_error + db" where
  "exec now d (Create_user NEW) =
     (case handle_new_user now NEW of
        Inl e \<Rightarrow> Inl e
      | Inr p \<Rightarrow> commit (d\<lparr>auth_users := auth_users d @ [NEW], profiles := profiles d @ [p]\<rparr>))"
| "exec now d (Delete_user x) = commit (delete_user x d)"
| "exec now d (Insert_profiles uid r) =
     (if profiles_insert_check uid r then commit (d\<lparr>profiles := profiles d @ [r]\<rparr>)
      else Inl RLS_violation)"
| "exec now d (Update_profiles uid wh f) =
     (case update_rows (\<lambda>r. wh r \<and> profiles_update_using uid r) (profiles_update_check uid)
             (\<lambda>r. update_profiles_updated_at now (f r)) (profiles d) of
        Inl e \<Rightarrow> Inl e
      | Inr rows \<Rightarrow> commit (d\<lparr>profiles := rows\<rparr>))"
| "exec now d (Insert_user_roles uid r) =
     (if user_roles_insert_check uid r then commit (d\<lparr>user_roles := user_roles d @ [r]\<rparr>)
      else Inl RLS_violation)"
| "exec now d (Insert_assignments uid r) =
     (if assignments_insert_check (user_roles d) uid r
      then commit (d\<lparr>assignments := assignments d @ [r]\<rparr>)
      else Inl RLS_violation)"
| "exec now d (Update_assignments uid wh f) =
     (case update_rows (\<lambda>r. wh r \<and> assignments_update_using (user_roles d) uid r)
             (assignments_update_check (user_roles d) uid)
             (\<lambda>r. update_assignments_updated_at now (f r)) (assignments d) of
        Inl e \<Rightarrow> Inl e
      | Inr rows \<Rightarrow> commit (d\<lparr>assignments := rows\<rparr>))"
| "exec now d (Delete_assignments uid wh) =
     commit (delete_assignments_where
               (\<lambda>r. wh r \<and> assignments_delete_using (user_roles d) uid r) d)"
| "exec now d (Insert_submissions uid r) =
     (if submissions_insert_check (user_roles d) uid r
      then commit (d\<lparr>submissions := submissions d @ [r]\<rparr>)
      else Inl RLS_violation)"
| "exec now d (Update_submissions uid wh f) =
     (case update_rows (\<lambda>r. wh r \<and> submissions_update_using (user_roles d) uid r)
             (submissions_update_check (user_roles d) uid) f (submissions d) of
        Inl e \<Rightarrow> Inl e
      | Inr rows \<Rightarrow> commit (d\<lparr>submissions := rows\<rparr>))"

text \<open>The stored state after a request: a failed statement leaves it as it was.\<close>

definition apply_request :: "timestamp \<Rightarrow> db \<Rightarrow> request \<Rightarrow> db" where
  "apply_request now d req = (case exec now d req of Inl e \<Rightarrow> d | Inr d' \<Rightarrow> d')"

text \<open>The states the database can be in, from the empty tables of the migration.\<close>

inductive reachable :: "db \<Rightarrow> bool" where
  reachable_empty: "reachable empty_db"
| reachable_exec: "reachable d \<Longrightarrow> exec now d req = Inr d' \<Longrightarrow> reachable d'"


section \<open>Client pages\<close>

text \<open>What a handler shows when it ends: a message of its own, the backend's error,
  a \<open>TypeError\<close> caught by its \<open>catch\<close>, success, or nothing.\<close>

datatype ui = Rejected string | Backend_error db_error | TypeError | Success | Silent



subsection \<open>\<open>SubmitAssignment.tsx\<close>\<close>

text \<open>The decimal digits of a number, as the template prints \<open>Date.now()\<close>.\<close>

fun show_nat :: "nat \<Rightarrow> string" where
  "show_nat n =
     (if n < 10 then [''0123456789'' ! n]
      else show_nat (n div 10) @ [''0123456789'' ! (n mod 10)])"

definition show_int :: "int \<Rightarrow> string" where
  "show_int i = (if i < 0 then ''-'' @ show_nat (nat (- i)) else show_nat (nat i))"

text \<open>\<open>file.name.split('.').pop()\<close>.\<close>

definition fileExt :: "string \<Rightarrow> string" where
  "fileExt fname =
     (case rev (split_on (CHR ''.'') fname) of [] \<Rightarrow> ''undefined'' | e # _ \<Rightarrow> e)"

text \<open>The template \<open>${user!.id}/${id}/${Date.now()}.${fileExt}\<close>; the route parameter
  \<open>id\<close> may be \<open>undefined\<close>.\<close>

definition filePath :: "uuid \<Rightarrow> string option \<Rightarrow> nat \<Rightarrow> string \<Rightarrow> string" where
  "filePath uid id_param date_now fname =
     uid @ ''/'' @ (case id_param of None \<Rightarrow> ''undefined'' | Some i \<Rightarrow> i) @ ''/''
       @ show_nat date_now @ ''.'' @ fileExt fname"




subsection \<open>The submissions page\<close>

text \<open>
  A JavaScript number: \<open>NaN\<close>, the two infinities, or a finite value. \<open><\<close> is false as
  soon as one side is \<open>NaN\<close>.
\<close>

datatype jsnum = NaN | Num rat | PosInfinity | NegInfinity

fun js_less :: "jsnum \<Rightarrow> jsnum \<Rightarrow> bool" where
  "js_less NaN _ = False"
| "js_less _ NaN = False"
| "js_less (Num a) (Num b) = (a < b)"
| "js_less (Num a) PosInfinity = True"
| "js_less NegInfinity (Num b) = True"
| "js_less NegInfinity PosInfinity = True"
| "js_less _ _ = False"

definition isNaN :: "jsnum \<Rightarrow> bool" where
  "isNaN x = (x = NaN)"

text \<open>The fields of the page's \<open>Submission\<close> that \<open>handleGradeSubmit\<close> reads: \<open>id\<close> and
  the joined \<open>assignment\<close>, which may be \<open>null\<close>.\<close>

record Submission_assignment =
  ja_id :: uuid
  ja_title :: string
  ja_subject :: string
  ja_max_score :: int

record Submission =
  sel_id :: uuid
  sel_assignment :: "Submission_assignment option"

text \<open>\<open>selectedSubmission.assignment?.max_score || 100\<close>: \<open>||\<close> takes its right side when
  the left one is \<open>undefined\<close> or \<open>0\<close>.\<close>

definition max_score_or_100 :: "Submission \<Rightarrow> int" where
  "max_score_or_100 s =
     (case sel_assignment s of
        None \<Rightarrow> 100
      | Some a \<Rightarrow> if ja_max_score a = 0 then 100 else ja_max_score a)"

text \<open>The body of \<open>.update(...)\<close> and the row of \<open>.eq('id', ...)\<close>.\<close>

record grade_update =
  gu_id :: uuid
  gu_grade :: jsnum
  gu_feedback :: "string option"
  gu_status :: submission_status
  gu_graded_at :: timestamp

text \<open>The statement the backend makes of it: \<open>grade\<close> is an \<open>INTEGER\<close> column, which
  takes no number with a fraction.\<close>

definition grade_update_request :: "uuid option \<Rightarrow> grade_update \<Rightarrow> db_error + request" where
  "grade_update_request uid u =
     (case gu_grade u of
        Num q \<Rightarrow>
          if of_int \<lfloor>q\<rfloor> = q
          then Inr (Update_submissions uid (\<lambda>r. s_id r = gu_id u)
                 (\<lambda>r. r\<lparr>grade := Some \<lfloor>q\<rfloor>, feedback := gu_feedback u, status := gu_status u,
                        graded_at := Some (gu_graded_at u)\<rparr>))
          else Inl Invalid_input
      | _ \<Rightarrow> Inl Invalid_input)"

text \<open>
  \<open>handleGradeSubmit\<close>, from \<open>grade = Number(gradeValue)\<close> on (\<open>grade_number\<close>): \<open>date\<close> is \<open>new Date()\<close>,
  \<open>uid\<close> the signed-in identity. The result names the update it issued, if any.
\<close>

definition handleGradeSubmit ::
  "timestamp \<Rightarrow> timestamp \<Rightarrow> db \<Rightarrow> uuid option \<Rightarrow> Submission option \<Rightarrow> jsnum \<Rightarrow> string
     \<Rightarrow> grade_update option \<times> ui \<times> db" where
  "handleGradeSubmit now date d uid selectedSubmission grade_number feedbackValue =
     (case selectedSubmission of
        None \<Rightarrow> (None, Silent, d)
      | Some s \<Rightarrow>
          if isNaN grade_number \<or> js_less grade_number (Num 0)
             \<or> js_less (Num (of_int (max_score_or_100 s))) grade_number
          then (None,
                Rejected (''Grade must be between 0 and '' @ show_int (max_score_or_100 s)), d)
          else
            (let u = \<lparr>gu_id = sel_id s, gu_grade = grade_number,
                      gu_feedback = (if feedbackValue = [] then None else Some feedbackValue),
                      gu_status = graded, gu_graded_at = date\<rparr> in
             case grade_update_request uid u of
               Inl e \<Rightarrow> (Some u, Backend_error e, d)
             | Inr req \<Rightarrow>
                 (case exec now d req of
                    Inl e \<Rightarrow> (Some u, Backend_error e, d)
                  | Inr d' \<Rightarrow> (Some u, Success, d'))))"


text \<open>Every identity of \<open>auth.users\<close> has a profile row with its id.\<close>

definition every_user_has_profile :: "db \<Rightarrow> bool" where
  "every_user_has_profile d = (set (map u_id (auth_users d)) \<subseteq> set (map p_id (profiles d)))"

section \<open>A small state for the examples\<close>

text \<open>
  One teacher, two students, one assignment of the teacher with 100 points, and two
  submissions: the first student's is graded, the second student's is not.
\<close>

definition uuid_teacher :: uuid where
  "uuid_teacher = ''aaaaaaaa-0000-4000-8000-000000000001''"

definition uuid_student1 :: uuid where
  "uuid_student1 = ''bbbbbbbb-0000-4000-8000-000000000001''"

definition uuid_student2 :: uuid where
  "uuid_student2 = ''bbbbbbbb-0000-4000-8000-000000000002''"

definition uuid_assignment :: uuid where
  "uuid_assignment = ''cccccccc-0000-4000-8000-000000000001''"

definition sample_submission1 :: submissions_row where
  "sample_submission1 =
     \<lparr>s_id = ''dddddddd-0000-4000-8000-000000000001'', assignment_id = uuid_assignment,
      student_id = uuid_student1,
      file_url = uuid_student1 @ ''/'' @ uuid_assignment @ ''/1700000000000.pdf'',
      file_name = ''essay.pdf'', submitted_at = 1700000000500, grade = Some 88,
      feedback = Some ''Good work'', status = graded, graded_at = Some 1700000900000\<rparr>"

definition sample_submission2 :: submissions_row where
  "sample_submission2 =
     \<lparr>s_id = ''dddddddd-0000-4000-8000-000000000002'', assignment_id = uuid_assignment,
      student_id = uuid_student2,
      file_url = uuid_student2 @ ''/'' @ uuid_assignment @ ''/1700000100000.pdf'',
      file_name = ''essay.pdf'', submitted_at = 1700000100500, grade = None,
      feedback = None, status = submitted, graded_at = None\<rparr>"

definition sample_assignment :: assignments_row where
  "sample_assignment =
     \<lparr>a_id = uuid_assignment, title = ''Essay 1'', description = None, subject = ''English'',
      due_date = 1800000000000, max_score = 100, created_by = uuid_teacher,
      a_created_at = 1690000000000, a_updated_at = 1690000000000\<rparr>"

definition sample_roles :: "user_roles_row list" where
  "sample_roles =
     [\<lparr>ur_id = ''eeeeeeee-0000-4000-8000-000000000001'', user_id = uuid_teacher,
       role = teacher\<rparr>,
      \<lparr>ur_id = ''eeeeeeee-0000-4000-8000-000000000002'', user_id = uuid_student1,
       role = student\<rparr>,
      \<lparr>ur_id = ''eeeeeeee-0000-4000-8000-000000000003'', user_id = uuid_student2,
       role = student\<rparr>]"

definition sample_db :: db where
  "sample_db =
     \<lparr>auth_users =
        [\<lparr>u_id = uuid_teacher, u_email = Some ''t@school.example'',
          meta_full_name = Some ''Tess''\<rparr>,
         \<lparr>u_id = uuid_student1, u_email = Some ''s1@school.example'',
          meta_full_name = Some ''Sam''\<rparr>,
         \<lparr>u_id = uuid_student2, u_email = Some ''s2@school.example'',
          meta_full_name = None\<rparr>],
      profiles =
        [\<lparr>p_id = uuid_teacher, full_name = ''Tess'', email = ''t@school.example'',
          p_created_at = 1680000000000, p_updated_at = 1680000000000\<rparr>,
         \<lparr>p_id = uuid_student1, full_name = ''Sam'', email = ''s1@school.example'',
          p_created_at = 1680000000001, p_updated_at = 1680000000001\<rparr>,
         \<lparr>p_id = uuid_student2, full_name = ''User'', email = ''s2@school.example'',
          p_created_at = 1680000000002, p_updated_at = 1680000000002\<rparr>],
      user_roles = sample_roles,
      assignments = [sample_assignment],
      submissions = [sample_submission1, sample_submission2]\<rparr>"

text \<open>The same identity with both roles, which \<open>UNIQUE (user_id, role)\<close> admits.\<close>

definition two_roles :: "user_roles_row list" where
  "two_roles =
     [\<lparr>ur_id = ''eeeeeeee-0000-4000-8000-000000000001'', user_id = uuid_teacher,
       role = teacher\<rparr>,
      \<lparr>ur_id = ''eeeeeeee-0000-4000-8000-000000000004'', user_id = uuid_teacher,
       role = student\<rparr>]"


text \<open>The small state with an assignment of 0 points, and the second student's
  submission as the submissions page holds it then.\<close>

definition zero_points_db :: db where
  "zero_points_db = sample_db\<lparr>assignments := [sample_assignment\<lparr>max_score := 0\<rparr>]\<rparr>"

definition zero_points_selected :: Submission where
  "zero_points_selected =
     \<lparr>sel_id = s_id sample_submission2,
      sel_assignment = Some \<lparr>ja_id = uuid_assignment, ja_title = ''Essay 1'',
        ja_subject = ''English'', ja_max_score = 0\<rparr>\<rparr>"

text \<open>A history of requests, each with the time of its statement, and the state it
  leads to. The history below builds the small state from the empty tables.\<close>

definition run :: "(timestamp \<times> request) list \<Rightarrow> db \<Rightarrow> db" where
  "run h d = foldl (\<lambda>d (t, req). apply_request t d req) d h"

definition sample_history :: "(timestamp \<times> request) list" where
  "sample_history =
     [(1680000000000, Create_user \<lparr>u_id = uuid_teacher, u_email = Some ''t@school.example'',
          meta_full_name = Some ''Tess''\<rparr>),
      (1680000000001, Create_user \<lparr>u_id = uuid_student1, u_email = Some ''s1@school.example'',
          meta_full_name = Some ''Sam''\<rparr>),
      (1680000000002, Create_user \<lparr>u_id = uuid_student2, u_email = Some ''s2@school.example'',
          meta_full_name = None\<rparr>),
      (1680000000010, Insert_user_roles (Some uuid_teacher) (sample_roles ! 0)),
      (1680000000011, Insert_user_roles (Some uuid_student1) (sample_roles ! 1)),
      (1680000000012, Insert_user_roles (Some uuid_student2) (sample_roles ! 2)),
      (1690000000000, Insert_assignments (Some uuid_teacher) sample_assignment),
      (1700000000500, Insert_submissions (Some uuid_student1)
          (sample_submission1\<lparr>grade := None, feedback := None, status := submitted,
             graded_at := None\<rparr>)),
      (1700000100500, Insert_submissions (Some uuid_student2) sample_submission2),
      (1700000900100, Update_submissions (Some uuid_teacher)
          (\<lambda>r. s_id r = s_id sample_submission1)
          (\<lambda>r. r\<lparr>grade := Some 88, feedback := Some ''Good work'', status := graded,
                 graded_at := Some 1700000900000\<rparr>))]"

section \<open>Lemmas on the model\<close>

lemmas policy_defs =
  Users_can_view_their_own_profile_def Users_can_update_their_own_profile_def
  Users_can_insert_their_own_profile_def Teachers_can_view_all_profiles_def
  Users_can_view_their_own_role_def Users_can_insert_their_own_role_during_signup_def
  Everyone_authenticated_can_view_assignments_def Teachers_can_create_assignments_def
  Teachers_can_update_their_own_assignments_def Teachers_can_delete_their_own_assignments_def
  Students_can_view_their_own_submissions_def Teachers_can_view_all_submissions_def
  Students_can_submit_assignments_def Students_can_update_their_own_pending_submissions_def
  Teachers_can_grade_submissions_def
  profiles_select_def profiles_insert_check_def profiles_update_using_def
  profiles_update_check_def user_roles_select_def user_roles_insert_check_def
  assignments_select_def assignments_insert_check_def assignments_update_using_def
  assignments_update_check_def assignments_delete_using_def submissions_select_def
  submissions_insert_check_def submissions_update_using_def submissions_update_check_def

lemmas sample_defs = uuid_teacher_def uuid_student1_def uuid_student2_def uuid_assignment_def
  sample_submission1_def sample_submission2_def sample_assignment_def sample_roles_def
  sample_db_def two_roles_def

lemma sample_db_ok: "unique_ok sample_db \<and> references_ok sample_db"
  by (simp add: unique_ok_def references_ok_def user_roles_unique_def sample_defs)

lemma get_user_role_has_role:
  "get_user_role ur uid = Some r \<Longrightarrow> has_role ur uid r"
proof -
  assume a: "get_user_role ur uid = Some r"
  then obtain row rest where f: "filter (\<lambda>row. Some (user_id row) = uid) ur = row # rest"
    and r: "role row = r"
    by (auto simp: get_user_role_def split: list.splits)
  from f have "row \<in> set (filter (\<lambda>row. Some (user_id row) = uid) ur)" by simp
  then have "row \<in> set ur" "Some (user_id row) = uid" by auto
  with r show ?thesis by (auto simp: has_role_def list_ex_iff)
qed

lemma has_role_single:
  assumes "single_role ur x" "has_role ur (Some x) r"
  shows "get_user_role ur (Some x) = Some r"
proof -
  from assms(2) obtain row where row: "row \<in> set ur" "user_id row = x" "role row = r"
    by (auto simp: has_role_def list_ex_iff)
  then have m: "row \<in> set (filter (\<lambda>row. user_id row = x) ur)" by simp
  from assms(1) have "length (filter (\<lambda>row. user_id row = x) ur) \<le> 1"
    by (simp add: single_role_def)
  with m obtain y where y: "filter (\<lambda>row. user_id row = x) ur = [y]"
    by (cases "filter (\<lambda>row. user_id row = x) ur") (auto simp: length_Suc_conv)
  with m have "y = row" by simp
  with y row show ?thesis by (simp add: get_user_role_def)
qed

lemma commit_Inr: "commit d = Inr d' \<longleftrightarrow> d' = d \<and> unique_ok d \<and> references_ok d"
  by (auto simp: commit_def)

lemma update_rows_Inr:
  "update_rows hit chk f rows = Inr rows' \<longleftrightarrow>
     (\<forall>r\<in>set rows. hit r \<longrightarrow> chk (f r)) \<and> rows' = map (\<lambda>r. if hit r then f r else r) rows"
  by (auto simp: update_rows_def list_all_iff)

lemma update_rows_Inl: "update_rows hit chk f rows = Inl e \<Longrightarrow> e = RLS_violation"
  by (auto simp: update_rows_def split: if_splits)

lemma exec_Update_submissions_Inr:
  "exec now d (Update_submissions uid wh f) = Inr d' \<longleftrightarrow>
     (\<forall>r\<in>set (submissions d). wh r \<and> submissions_update_using (user_roles d) uid r
          \<longrightarrow> submissions_update_check (user_roles d) uid (f r)) \<and>
     d' = d\<lparr>submissions := map (\<lambda>r. if wh r \<and> submissions_update_using (user_roles d) uid r
                                      then f r else r) (submissions d)\<rparr> \<and>
     unique_ok d' \<and> references_ok d'"
  by (auto simp: update_rows_def list_all_iff commit_Inr split: if_splits)

lemma exec_Update_assignments_Inr:
  "exec now d (Update_assignments uid wh f) = Inr d' \<longleftrightarrow>
     (\<forall>r\<in>set (assignments d). wh r \<and> assignments_update_using (user_roles d) uid r
          \<longrightarrow> assignments_update_check (user_roles d) uid
                 (update_assignments_updated_at now (f r))) \<and>
     d' = d\<lparr>assignments := map (\<lambda>r. if wh r \<and> assignments_update_using (user_roles d) uid r
                                      then update_assignments_updated_at now (f r) else r)
                               (assignments d)\<rparr> \<and>
     unique_ok d' \<and> references_ok d'"
  by (auto simp: update_rows_def list_all_iff commit_Inr split: if_splits)

lemma exec_Update_profiles_Inr:
  "exec now d (Update_profiles uid wh f) = Inr d' \<longleftrightarrow>
     (\<forall>r\<in>set (profiles d). wh r \<and> profiles_update_using uid r
          \<longrightarrow> profiles_update_check uid (update_profiles_updated_at now (f r))) \<and>
     d' = d\<lparr>profiles := map (\<lambda>r. if wh r \<and> profiles_update_using uid r
                                   then update_profiles_updated_at now (f r) else r)
                            (profiles d)\<rparr> \<and>
     unique_ok d' \<and> references_ok d'"
  by (auto simp: update_rows_def list_all_iff commit_Inr split: if_splits)

lemma apply_request_cases:
  "apply_request now d req = d \<or> exec now d req = Inr (apply_request now d req)"
  by (simp add: apply_request_def split: sum.splits)

lemma student_actor_not_teacher: "student_actor ur x \<Longrightarrow> \<not> has_role ur (Some x) teacher"
  by (simp add: student_actor_def)

lemma submissions_row_untouched:
  assumes "i < length (submissions d)"
    and "\<not> submissions_update_using (user_roles d) uid (submissions d ! i)"
  shows "submissions (apply_request now d (Update_submissions uid wh f)) ! i = submissions d ! i"
proof -
  let ?d' = "apply_request now d (Update_submissions uid wh f)"
  consider "?d' = d" | "exec now d (Update_submissions uid wh f) = Inr ?d'"
    using apply_request_cases by blast
  then show ?thesis
  proof cases
    case 1
    then show ?thesis by simp
  next
    case 2
    then have "submissions ?d' =
        map (\<lambda>r. if wh r \<and> submissions_update_using (user_roles d) uid r then f r else r)
          (submissions d)"
      unfolding exec_Update_submissions_Inr by simp
    with assms show ?thesis by simp
  qed
qed

lemma map_key_preserved:
  assumes "\<And>r. k (g r) = k r"
  shows "map k (map g xs) = map k xs"
  using assms by (induction xs) auto

lemma teacher_update_submissions_passes:
  assumes "has_role (user_roles d) (Some T) teacher"
  shows "submissions_update_using (user_roles d) (Some T) r"
    and "submissions_update_check (user_roles d) (Some T) r"
  using assms by (auto simp: policy_defs)

section \<open>Access to submissions\<close>

text \<open>
  C1. A student actor \<open>S\<close> reads a submission row exactly when the row's \<open>student_id\<close> is
  \<open>S\<close>, and the rows an update by \<open>S\<close> can touch are exactly the rows of \<open>S\<close> with status
  \<open>submitted\<close>. Whatever update \<open>S\<close> requests, with any \<open>WHERE\<close> condition and any new
  values, a graded row is stored afterwards as it was before, the student's own rows
  included.
\<close>

theorem student_submission_access:
  assumes "student_actor (user_roles d) S"
  shows "(submissions_select (user_roles d) (Some S) r \<longleftrightarrow> student_id r = S) \<and>
         (submissions_update_using (user_roles d) (Some S) r \<longleftrightarrow>
            student_id r = S \<and> status r = submitted) \<and>
         (i < length (submissions d) \<and> status (submissions d ! i) = graded \<longrightarrow>
            submissions (apply_request now d (Update_submissions (Some S) wh f)) ! i
              = submissions d ! i)"
proof -
  have nt: "\<not> has_role (user_roles d) (Some S) teacher"
    using assms by (rule student_actor_not_teacher)
  have sel: "submissions_select (user_roles d) (Some S) r \<longleftrightarrow> student_id r = S"
    using nt by (auto simp: policy_defs)
  have upd: "submissions_update_using (user_roles d) (Some S) r' \<longleftrightarrow>
      student_id r' = S \<and> status r' = submitted" for r'
    using nt by (auto simp: policy_defs)
  have "submissions (apply_request now d (Update_submissions (Some S) wh f)) ! i
          = submissions d ! i"
    if "i < length (submissions d)" "status (submissions d ! i) = graded"
    using that upd [of "submissions d ! i"] by (intro submissions_row_untouched) auto
  with sel upd show ?thesis by blast
qed

theorem student_submission_access_witness:
  "student_actor (user_roles sample_db) uuid_student1 \<and>
   submissions_select (user_roles sample_db) (Some uuid_student1) sample_submission1 \<and>
   \<not> submissions_select (user_roles sample_db) (Some uuid_student1) sample_submission2 \<and>
   \<not> submissions_update_using (user_roles sample_db) (Some uuid_student1) sample_submission1 \<and>
   status (submissions sample_db ! 0) = graded \<and>
   submissions (apply_request 1700001000000 sample_db
       (Update_submissions (Some uuid_student1) (\<lambda>r. True) (\<lambda>r. r\<lparr>file_url := ''x''\<rparr>))) ! 0
     = submissions sample_db ! 0"
proof -
  have h: "student_actor (user_roles sample_db) uuid_student1"
    by (simp add: student_actor_def has_role_def sample_defs)
  have g: "0 < length (submissions sample_db) \<and> status (submissions sample_db ! 0) = graded"
    by (simp add: sample_defs)
  show ?thesis
    using h g
      student_submission_access [OF h, where r = sample_submission1 and i = 0
        and now = 1700001000000 and wh = "\<lambda>r. True" and f = "\<lambda>r. r\<lparr>file_url := ''x''\<rparr>"]
      student_submission_access [OF h, where r = sample_submission2]
    by (simp add: sample_submission1_def sample_submission2_def uuid_student1_def
        uuid_student2_def)
qed

text \<open>
  C2. An actor \<open>T\<close> with the teacher role reads every submission row and may update every
  one, whoever its student is and whatever its status: in a state that meets the
  constraints, the update of \<open>grade\<close>, \<open>feedback\<close> and \<open>status\<close> that \<open>T\<close> requests is
  written to every row of its \<open>WHERE\<close> condition.
\<close>

theorem teacher_submission_access:
  assumes "has_role (user_roles d) (Some T) teacher"
  shows "submissions_select (user_roles d) (Some T) r \<and>
         submissions_update_using (user_roles d) (Some T) r \<and>
         (unique_ok d \<and> references_ok d \<longrightarrow>
            exec now d (Update_submissions (Some T) wh
                          (\<lambda>r. r\<lparr>grade := g, feedback := fb, status := st\<rparr>))
              = Inr (d\<lparr>submissions :=
                        map (\<lambda>r. if wh r then r\<lparr>grade := g, feedback := fb, status := st\<rparr> else r)
                          (submissions d)\<rparr>))"
proof -
  let ?f = "\<lambda>r::submissions_row. r\<lparr>grade := g, feedback := fb, status := st\<rparr>"
  let ?rows = "map (\<lambda>r. if wh r then ?f r else r) (submissions d)"
  have sel: "submissions_select (user_roles d) (Some T) r"
    using assms by (simp add: policy_defs)
  have keys: "map s_id ?rows = map s_id (submissions d)"
      "map (\<lambda>s. (assignment_id s, student_id s)) ?rows
         = map (\<lambda>s. (assignment_id s, student_id s)) (submissions d)"
    by (rule map_key_preserved, simp)+
  have "exec now d (Update_submissions (Some T) wh ?f) = Inr (d\<lparr>submissions := ?rows\<rparr>)"
    if ok: "unique_ok d" "references_ok d"
  proof -
    have u: "unique_ok (d\<lparr>submissions := ?rows\<rparr>)"
      using ok(1) unfolding unique_ok_def by (simp add: keys del: map_map)
    have r: "references_ok (d\<lparr>submissions := ?rows\<rparr>)"
      using ok(2) unfolding references_ok_def Let_def
      by (auto simp: list_all_iff)
    show ?thesis
      unfolding exec_Update_submissions_Inr
      using u r teacher_update_submissions_passes [OF assms] by simp
  qed
  with sel teacher_update_submissions_passes(1) [OF assms] show ?thesis by blast
qed


theorem teacher_submission_access_witness:
  "has_role (user_roles sample_db) (Some uuid_teacher) teacher \<and>
   unique_ok sample_db \<and> references_ok sample_db \<and>
   submissions_select (user_roles sample_db) (Some uuid_teacher) sample_submission2 \<and>
   submissions_update_using (user_roles sample_db) (Some uuid_teacher) sample_submission1 \<and>
   exec 1700001000000 sample_db
     (Update_submissions (Some uuid_teacher) (\<lambda>r. s_id r = s_id sample_submission1)
        (\<lambda>r. r\<lparr>grade := Some 90, feedback := None, status := graded\<rparr>))
     = Inr (sample_db\<lparr>submissions :=
              [sample_submission1\<lparr>grade := Some 90, feedback := None, status := graded\<rparr>,
               sample_submission2]\<rparr>)"
proof -
  have h: "has_role (user_roles sample_db) (Some uuid_teacher) teacher"
    by (simp add: has_role_def sample_defs)
  have m: "map (\<lambda>r. if s_id r = s_id sample_submission1
                     then r\<lparr>grade := Some 90, feedback := None, status := graded\<rparr> else r)
             (submissions sample_db)
           = [sample_submission1\<lparr>grade := Some 90, feedback := None, status := graded\<rparr>,
              sample_submission2]"
    by (simp add: sample_defs)
  show ?thesis
    using h sample_db_ok m
      teacher_submission_access [OF h, where r = sample_submission2
        and now = 1700001000000 and wh = "\<lambda>r. s_id r = s_id sample_submission1"
        and g = "Some 90" and fb = None and st = graded]
      teacher_submission_access [OF h, where r = sample_submission1]
    by (simp del: exec.simps)
qed

section \<open>Role lookup\<close>

text \<open>
  C6, as the code has it. \<open>get_user_role\<close> returns one role or none, and a role it returns
  is one \<open>has_role\<close> confirms, in every state of \<open>user_roles\<close>. The converse holds for an
  identity with at most one row in \<open>user_roles\<close>: for it \<open>has_role x r\<close> is true exactly
  when \<open>get_user_role x\<close> is \<open>r\<close>.
\<close>

theorem role_lookup_agrees:
  "(get_user_role ur (Some x) = Some r \<longrightarrow> has_role ur (Some x) r) \<and>
   (single_role ur x \<longrightarrow> (has_role ur (Some x) r \<longleftrightarrow> get_user_role ur (Some x) = Some r))"
  using get_user_role_has_role has_role_single by blast

theorem role_lookup_agrees_witness:
  "single_role sample_roles uuid_student1 \<and>
   get_user_role sample_roles (Some uuid_student1) = Some student \<and>
   has_role sample_roles (Some uuid_student1) student"
  using role_lookup_agrees [of sample_roles uuid_student1 student]
  by (simp add: single_role_def get_user_role_def sample_defs)

text \<open>
  C6, as stated, fails on a table that holds both roles for one identity, which the
  constraints of \<open>user_roles\<close> admit: \<open>has_role\<close> is true of \<open>student\<close> while
  \<open>get_user_role\<close> is not \<open>student\<close>.
\<close>

theorem role_lookup_two_roles_counterexample:
  "user_roles_unique two_roles \<and>
   has_role two_roles (Some uuid_teacher) student \<and>
   get_user_role two_roles (Some uuid_teacher) \<noteq> Some student"
  by (simp add: user_roles_unique_def has_role_def get_user_role_def sample_defs)

section \<open>Writes to assignments\<close>

lemma assignments_row_untouched:
  assumes "i < length (assignments d)"
    and "\<not> assignments_update_using (user_roles d) uid (assignments d ! i)"
  shows "assignments (apply_request now d (Update_assignments uid wh f)) ! i = assignments d ! i"
proof -
  let ?d' = "apply_request now d (Update_assignments uid wh f)"
  consider "?d' = d" | "exec now d (Update_assignments uid wh f) = Inr ?d'"
    using apply_request_cases by blast
  then show ?thesis
  proof cases
    case 1
    then show ?thesis by simp
  next
    case 2
    then have "assignments ?d' =
        map (\<lambda>r. if wh r \<and> assignments_update_using (user_roles d) uid r
                  then update_assignments_updated_at now (f r) else r)
          (assignments d)"
      unfolding exec_Update_assignments_Inr by simp
    with assms show ?thesis by simp
  qed
qed

lemma assignments_row_kept:
  assumes "r \<in> set (assignments d)"
    and "\<not> assignments_delete_using (user_roles d) uid r"
  shows "r \<in> set (assignments (apply_request now d (Delete_assignments uid wh)))"
proof -
  let ?d' = "apply_request now d (Delete_assignments uid wh)"
  consider "?d' = d" | "exec now d (Delete_assignments uid wh) = Inr ?d'"
    using apply_request_cases by blast
  then show ?thesis
  proof cases
    case 1
    with assms show ?thesis by simp
  next
    case 2
    then have "?d' = delete_assignments_where
        (\<lambda>r. wh r \<and> assignments_delete_using (user_roles d) uid r) d"
      by (simp add: commit_Inr)
    then have "assignments ?d' =
        filter (\<lambda>r. \<not> (wh r \<and> assignments_delete_using (user_roles d) uid r)) (assignments d)"
      by (simp add: delete_assignments_where_def Let_def)
    with assms show ?thesis by simp
  qed
qed

lemma delete_assignments_where_ok:
  assumes "unique_ok d" "references_ok d"
  shows "unique_ok (delete_assignments_where gone d)"
    and "references_ok (delete_assignments_where gone d)"
proof -
  show "unique_ok (delete_assignments_where gone d)"
    using assms(1)
    by (simp add: unique_ok_def delete_assignments_where_def Let_def distinct_map_filter)
  have "assignment_id s \<in> a_id ` {a \<in> set (assignments d). \<not> gone a}"
    if "s \<in> set (submissions d)" "assignment_id s \<notin> a_id ` {a \<in> set (assignments d). gone a}"
      "assignment_id s \<in> a_id ` set (assignments d)" for s
    using that by auto
  then show "references_ok (delete_assignments_where gone d)"
    using assms(2)
    by (auto simp: references_ok_def delete_assignments_where_def Let_def list_all_iff)
qed

lemma list_all_key: "list_all (\<lambda>a. k a \<in> U) xs \<longleftrightarrow> set (map k xs) \<subseteq> U"
  by (auto simp: list_all_iff)

lemma teacher_update_assignments:
  assumes t: "has_role (user_roles d) (Some X) teacher"
    and ok: "unique_ok d" "references_ok d"
    and keep: "\<And>r. a_id (f r) = a_id r \<and> created_by (f r) = created_by r"
  shows "exec now d (Update_assignments (Some X) wh f)
           = Inr (d\<lparr>assignments :=
                     map (\<lambda>r. if wh r \<and> created_by r = X
                              then update_assignments_updated_at now (f r) else r)
                       (assignments d)\<rparr>)"
proof -
  let ?g = "\<lambda>r. if wh r \<and> created_by r = X then update_assignments_updated_at now (f r) else r"
  let ?rows = "map ?g (assignments d)"
  have using_eq: "assignments_update_using (user_roles d) (Some X) r \<longleftrightarrow> created_by r = X" for r
    using t by (auto simp: policy_defs)
  have chk: "assignments_update_check (user_roles d) (Some X)
               (update_assignments_updated_at now (f r))" if "created_by r = X" for r
    using t that keep by (auto simp: policy_defs update_assignments_updated_at_def)
  have keys: "map a_id ?rows = map a_id (assignments d)"
    "map created_by ?rows = map created_by (assignments d)"
    by (rule map_key_preserved, simp add: keep update_assignments_updated_at_def)+
  have u: "unique_ok (d\<lparr>assignments := ?rows\<rparr>)"
    using ok(1) unfolding unique_ok_def by (simp add: keys del: map_map)
  have r: "references_ok (d\<lparr>assignments := ?rows\<rparr>)"
    using ok(2) unfolding references_ok_def Let_def
    by (simp add: list_all_key keys del: map_map set_map)
  show ?thesis
    unfolding exec_Update_assignments_Inr using u r chk
    by (simp add: using_eq cong: if_cong)
qed

text \<open>
  C3. For every actor \<open>X\<close>: the policy admits the insert of a row \<open>n\<close> exactly when \<open>X\<close>
  has the teacher role and \<open>X\<close> is \<open>created_by n\<close>, and a stored row \<open>r\<close> can be updated or
  deleted by \<open>X\<close> exactly when \<open>X\<close> has the teacher role and \<open>X\<close> is \<open>created_by r\<close>. An
  insert that fails this test ends with a policy violation; an update or delete by an actor
  without the role, or on a row that is not the actor's, leaves the row stored as it was,
  for every \<open>WHERE\<close> condition and all new values. A teacher's update that keeps \<open>id\<close> and
  \<open>created_by\<close> is written to the teacher's own rows, and a teacher's delete removes them.
  (An update that hands the row to another \<open>created_by\<close> fails \<open>WITH CHECK\<close>, which is
  the same expression on the new row.)
\<close>

theorem assignment_write_access:
  "(assignments_insert_check (user_roles d) (Some X) n \<longleftrightarrow>
      has_role (user_roles d) (Some X) teacher \<and> X = created_by n) \<and>
   (assignments_update_using (user_roles d) (Some X) r \<longleftrightarrow>
      has_role (user_roles d) (Some X) teacher \<and> X = created_by r) \<and>
   (assignments_delete_using (user_roles d) (Some X) r \<longleftrightarrow>
      has_role (user_roles d) (Some X) teacher \<and> X = created_by r) \<and>
   (exec now d (Insert_assignments (Some X) n) =
      (if has_role (user_roles d) (Some X) teacher \<and> X = created_by n
       then commit (d\<lparr>assignments := assignments d @ [n]\<rparr>) else Inl RLS_violation)) \<and>
   (\<not> (has_role (user_roles d) (Some X) teacher \<and> X = created_by r) \<longrightarrow>
      (\<forall>i. i < length (assignments d) \<and> assignments d ! i = r \<longrightarrow>
         assignments (apply_request now d (Update_assignments (Some X) wh f)) ! i = r) \<and>
      (r \<in> set (assignments d) \<longrightarrow>
         r \<in> set (assignments (apply_request now d (Delete_assignments (Some X) wh))))) \<and>
   (has_role (user_roles d) (Some X) teacher \<and> unique_ok d \<and> references_ok d \<longrightarrow>
      ((\<forall>r. a_id (f r) = a_id r \<and> created_by (f r) = created_by r) \<longrightarrow>
         exec now d (Update_assignments (Some X) wh f)
           = Inr (d\<lparr>assignments :=
                     map (\<lambda>r. if wh r \<and> created_by r = X
                              then update_assignments_updated_at now (f r) else r)
                       (assignments d)\<rparr>)) \<and>
      exec now d (Delete_assignments (Some X) wh)
        = Inr (delete_assignments_where (\<lambda>r. wh r \<and> created_by r = X) d))"
proof -
  have ins: "assignments_insert_check (user_roles d) (Some X) n \<longleftrightarrow>
      has_role (user_roles d) (Some X) teacher \<and> X = created_by n"
    by (auto simp: policy_defs)
  have upd: "assignments_update_using (user_roles d) (Some X) r' \<longleftrightarrow>
      has_role (user_roles d) (Some X) teacher \<and> X = created_by r'" for r'
    by (auto simp: policy_defs)
  have del: "assignments_delete_using (user_roles d) (Some X) r' \<longleftrightarrow>
      has_role (user_roles d) (Some X) teacher \<and> X = created_by r'" for r'
    by (auto simp: policy_defs)
  have e_ins: "exec now d (Insert_assignments (Some X) n) =
      (if has_role (user_roles d) (Some X) teacher \<and> X = created_by n
       then commit (d\<lparr>assignments := assignments d @ [n]\<rparr>) else Inl RLS_violation)"
    using ins by simp
  have no: "(\<forall>i. i < length (assignments d) \<and> assignments d ! i = r \<longrightarrow>
         assignments (apply_request now d (Update_assignments (Some X) wh f)) ! i = r) \<and>
      (r \<in> set (assignments d) \<longrightarrow>
         r \<in> set (assignments (apply_request now d (Delete_assignments (Some X) wh))))"
    if "\<not> (has_role (user_roles d) (Some X) teacher \<and> X = created_by r)"
    using that upd [of r] del [of r] assignments_row_untouched [of _ d "Some X" now wh f]
      assignments_row_kept [of r d "Some X" now wh]
    by auto
  have yes_del: "exec now d (Delete_assignments (Some X) wh)
        = Inr (delete_assignments_where (\<lambda>r. wh r \<and> created_by r = X) d)"
    if t: "has_role (user_roles d) (Some X) teacher" and ok: "unique_ok d" "references_ok d"
  proof -
    have "(\<lambda>r. wh r \<and> assignments_delete_using (user_roles d) (Some X) r)
            = (\<lambda>r. wh r \<and> created_by r = X)"
      using t by (auto simp: del)
    then show ?thesis
      using delete_assignments_where_ok [OF ok] by (simp add: commit_Inr)
  qed
  show ?thesis
    using ins upd del e_ins no yes_del teacher_update_assignments [of d X f now wh]
    by (simp del: exec.simps)
qed


theorem assignment_write_access_witness:
  "\<not> has_role (user_roles sample_db) (Some uuid_student1) teacher \<and>
   exec 1700001000000 sample_db
     (Insert_assignments (Some uuid_student1)
        (sample_assignment\<lparr>a_id := ''cccccccc-0000-4000-8000-000000000002'',
           created_by := uuid_student1\<rparr>)) = Inl RLS_violation \<and>
   assignments (apply_request 1700001000000 sample_db
      (Update_assignments (Some uuid_student1) (\<lambda>r. True) (\<lambda>r. r\<lparr>title := ''x''\<rparr>))) ! 0
     = sample_assignment \<and>
   sample_assignment \<in> set (assignments (apply_request 1700001000000 sample_db
      (Delete_assignments (Some uuid_student1) (\<lambda>r. True)))) \<and>
   has_role (user_roles sample_db) (Some uuid_teacher) teacher \<and>
   unique_ok sample_db \<and> references_ok sample_db \<and>
   exec 1700001000000 sample_db
     (Update_assignments (Some uuid_teacher) (\<lambda>r. True) (\<lambda>r. r\<lparr>title := ''Essay 2''\<rparr>))
     = Inr (sample_db\<lparr>assignments :=
              [sample_assignment\<lparr>title := ''Essay 2'', a_updated_at := 1700001000000\<rparr>]\<rparr>) \<and>
   exec 1700001000000 sample_db (Delete_assignments (Some uuid_teacher) (\<lambda>r. True))
     = Inr (sample_db\<lparr>assignments := [], submissions := []\<rparr>)"
proof -
  let ?n = "sample_assignment\<lparr>a_id := ''cccccccc-0000-4000-8000-000000000002'',
              created_by := uuid_student1\<rparr>"
  have s: "\<not> has_role (user_roles sample_db) (Some uuid_student1) teacher"
    by (simp add: has_role_def sample_defs)
  have t: "has_role (user_roles sample_db) (Some uuid_teacher) teacher"
    by (simp add: has_role_def sample_defs)
  have a: "assignments sample_db ! 0 = sample_assignment"
    "0 < length (assignments sample_db)" "sample_assignment \<in> set (assignments sample_db)"
    "created_by sample_assignment = uuid_teacher"
    by (simp_all add: sample_db_def sample_assignment_def)
  have m: "map (\<lambda>r. if True \<and> created_by r = uuid_teacher
                     then update_assignments_updated_at 1700001000000 (r\<lparr>title := ''Essay 2''\<rparr>)
                     else r) (assignments sample_db)
           = [sample_assignment\<lparr>title := ''Essay 2'', a_updated_at := 1700001000000\<rparr>]"
    by (simp add: sample_db_def sample_assignment_def update_assignments_updated_at_def)
  have dl: "delete_assignments_where (\<lambda>r. True \<and> created_by r = uuid_teacher) sample_db
           = sample_db\<lparr>assignments := [], submissions := []\<rparr>"
    by (simp add: delete_assignments_where_def sample_db_def sample_assignment_def
        sample_submission1_def sample_submission2_def)
  note student = assignment_write_access [where d = sample_db and X = uuid_student1
      and n = ?n and r = sample_assignment and now = 1700001000000 and wh = "\<lambda>r. True"
      and f = "\<lambda>r. r\<lparr>title := ''x''\<rparr>"]
  note teacher = assignment_write_access [where d = sample_db and X = uuid_teacher
      and n = ?n and r = sample_assignment and now = 1700001000000 and wh = "\<lambda>r. True"
      and f = "\<lambda>r. r\<lparr>title := ''Essay 2''\<rparr>"]
  show ?thesis
    using s t a m dl sample_db_ok student teacher
    by (simp del: exec.simps)
qed

section \<open>Timestamp maintenance\<close>

text \<open>
  C9. When an update of \<open>profiles\<close> or of \<open>assignments\<close> succeeds, every row it wrote is the
  row the caller supplied (\<open>fp\<close>, \<open>fa\<close> of the stored row, any value of \<open>updated_at\<close>
  included) with \<open>updated_at\<close> replaced by the time of the write, and the other rows are
  unchanged.
\<close>

theorem updated_at_rewritten:
  "(exec now d (Update_profiles uid whp fp) = Inr d1 \<longrightarrow>
      length (profiles d1) = length (profiles d) \<and>
      (\<forall>i < length (profiles d).
         profiles d1 ! i =
           (if whp (profiles d ! i) \<and> profiles_update_using uid (profiles d ! i)
            then (fp (profiles d ! i))\<lparr>p_updated_at := now\<rparr> else profiles d ! i))) \<and>
   (exec now d (Update_assignments uid wha fa) = Inr d2 \<longrightarrow>
      length (assignments d2) = length (assignments d) \<and>
      (\<forall>i < length (assignments d).
         assignments d2 ! i =
           (if wha (assignments d ! i)
               \<and> assignments_update_using (user_roles d) uid (assignments d ! i)
            then (fa (assignments d ! i))\<lparr>a_updated_at := now\<rparr> else assignments d ! i)))"
proof -
  have p: "profiles d1 =
      map (\<lambda>r. if whp r \<and> profiles_update_using uid r
                then update_profiles_updated_at now (fp r) else r) (profiles d)"
    if "exec now d (Update_profiles uid whp fp) = Inr d1"
    using that unfolding exec_Update_profiles_Inr by simp
  have a: "assignments d2 =
      map (\<lambda>r. if wha r \<and> assignments_update_using (user_roles d) uid r
                then update_assignments_updated_at now (fa r) else r) (assignments d)"
    if "exec now d (Update_assignments uid wha fa) = Inr d2"
    using that unfolding exec_Update_assignments_Inr by simp
  show ?thesis
    using p a
    by (auto simp del: exec.simps
        simp add: update_profiles_updated_at_def update_assignments_updated_at_def)
qed



lemma own_profile_update:
  assumes ok: "unique_ok d" "references_ok d"
    and keep: "\<And>r. p_id (f r) = p_id r"
  shows "exec now d (Update_profiles (Some x) wh f)
           = Inr (d\<lparr>profiles :=
                     map (\<lambda>r. if wh r \<and> p_id r = x
                              then update_profiles_updated_at now (f r) else r)
                       (profiles d)\<rparr>)"
proof -
  let ?g = "\<lambda>r. if wh r \<and> p_id r = x then update_profiles_updated_at now (f r) else r"
  let ?rows = "map ?g (profiles d)"
  have using_eq: "profiles_update_using (Some x) r \<longleftrightarrow> p_id r = x" for r
    by (auto simp: policy_defs)
  have chk: "profiles_update_check (Some x) (update_profiles_updated_at now (f r))"
    if "p_id r = x" for r
    using that keep by (auto simp: policy_defs update_profiles_updated_at_def)
  have keys: "map p_id ?rows = map p_id (profiles d)"
    by (rule map_key_preserved, simp add: keep update_profiles_updated_at_def)
  have u: "unique_ok (d\<lparr>profiles := ?rows\<rparr>)"
    using ok(1) unfolding unique_ok_def by (simp add: keys del: map_map)
  have r: "references_ok (d\<lparr>profiles := ?rows\<rparr>)"
    using ok(2) unfolding references_ok_def Let_def
    by (simp add: list_all_key keys del: map_map set_map)
  show ?thesis
    unfolding exec_Update_profiles_Inr using u r chk
    by (simp add: using_eq cong: if_cong)
qed

theorem updated_at_rewritten_witness:
  "exec 1700001000000 sample_db
     (Update_profiles (Some uuid_student1) (\<lambda>r. True)
        (\<lambda>r. r\<lparr>full_name := ''Sam B'', p_updated_at := 5\<rparr>))
     = Inr (sample_db\<lparr>profiles :=
         map (\<lambda>r. if True \<and> p_id r = uuid_student1
                  then update_profiles_updated_at 1700001000000
                         (r\<lparr>full_name := ''Sam B'', p_updated_at := 5\<rparr>)
                  else r) (profiles sample_db)\<rparr>) \<and>
   p_updated_at (profiles (sample_db\<lparr>profiles :=
         map (\<lambda>r. if True \<and> p_id r = uuid_student1
                  then update_profiles_updated_at 1700001000000
                         (r\<lparr>full_name := ''Sam B'', p_updated_at := 5\<rparr>)
                  else r) (profiles sample_db)\<rparr>) ! 1) = 1700001000000 \<and>
   exec 1700001000000 sample_db
     (Update_assignments (Some uuid_teacher) (\<lambda>r. True) (\<lambda>r. r\<lparr>a_updated_at := 5\<rparr>))
     = Inr (sample_db\<lparr>assignments :=
         map (\<lambda>r. if True \<and> created_by r = uuid_teacher
                  then update_assignments_updated_at 1700001000000 (r\<lparr>a_updated_at := 5\<rparr>)
                  else r) (assignments sample_db)\<rparr>) \<and>
   a_updated_at (assignments (sample_db\<lparr>assignments :=
         map (\<lambda>r. if True \<and> created_by r = uuid_teacher
                  then update_assignments_updated_at 1700001000000 (r\<lparr>a_updated_at := 5\<rparr>)
                  else r) (assignments sample_db)\<rparr>) ! 0) = 1700001000000"
proof -
  let ?fp = "\<lambda>r::profiles_row. r\<lparr>full_name := ''Sam B'', p_updated_at := 5\<rparr>"
  let ?fa = "\<lambda>r::assignments_row. r\<lparr>a_updated_at := 5\<rparr>"
  let ?d1 = "sample_db\<lparr>profiles :=
         map (\<lambda>r. if True \<and> p_id r = uuid_student1
                  then update_profiles_updated_at 1700001000000 (?fp r)
                  else r) (profiles sample_db)\<rparr>"
  let ?d2 = "sample_db\<lparr>assignments :=
         map (\<lambda>r. if True \<and> created_by r = uuid_teacher
                  then update_assignments_updated_at 1700001000000 (?fa r)
                  else r) (assignments sample_db)\<rparr>"
  have t: "has_role (user_roles sample_db) (Some uuid_teacher) teacher"
    by (simp add: has_role_def sample_defs)
  have e1: "exec 1700001000000 sample_db (Update_profiles (Some uuid_student1) (\<lambda>r. True) ?fp)
      = Inr ?d1"
    using sample_db_ok by (intro own_profile_update) simp_all
  have e2: "exec 1700001000000 sample_db (Update_assignments (Some uuid_teacher) (\<lambda>r. True) ?fa)
      = Inr ?d2"
    using sample_db_ok t by (intro teacher_update_assignments) simp_all
  have h1: "1 < length (profiles sample_db)"
    "profiles_update_using (Some uuid_student1) (profiles sample_db ! 1)"
    by (simp_all add: sample_db_def policy_defs)
  have h2: "0 < length (assignments sample_db)"
    "assignments_update_using (user_roles sample_db) (Some uuid_teacher)
       (assignments sample_db ! 0)"
    using t by (simp_all add: sample_db_def sample_assignment_def policy_defs)
  have c1: "p_updated_at (profiles ?d1 ! 1) = 1700001000000"
  proof -
    from updated_at_rewritten [where now = 1700001000000 and d = sample_db
        and uid = "Some uuid_student1" and whp = "\<lambda>r. True" and fp = ?fp and ?d1.0 = ?d1] e1
    have "\<forall>i<length (profiles sample_db).
         profiles ?d1 ! i =
           (if True \<and> profiles_update_using (Some uuid_student1) (profiles sample_db ! i)
            then (?fp (profiles sample_db ! i))\<lparr>p_updated_at := 1700001000000\<rparr>
            else profiles sample_db ! i)"
      by blast
    with h1 have "profiles ?d1 ! 1 = (?fp (profiles sample_db ! 1))\<lparr>p_updated_at := 1700001000000\<rparr>"
      by presburger
    then have "p_updated_at (profiles ?d1 ! 1)
        = p_updated_at ((?fp (profiles sample_db ! 1))\<lparr>p_updated_at := 1700001000000\<rparr>)"
      by (rule arg_cong)
    also have "\<dots> = 1700001000000" by simp
    finally show ?thesis .
  qed
  have c2: "a_updated_at (assignments ?d2 ! 0) = 1700001000000"
  proof -
    from updated_at_rewritten [where now = 1700001000000 and d = sample_db
        and uid = "Some uuid_teacher" and wha = "\<lambda>r. True" and fa = ?fa and ?d2.0 = ?d2] e2
    have "\<forall>i<length (assignments sample_db).
         assignments ?d2 ! i =
           (if True \<and> assignments_update_using (user_roles sample_db) (Some uuid_teacher)
                        (assignments sample_db ! i)
            then (?fa (assignments sample_db ! i))\<lparr>a_updated_at := 1700001000000\<rparr>
            else assignments sample_db ! i)"
      by blast
    with h2 have "assignments ?d2 ! 0 = (?fa (assignments sample_db ! 0))\<lparr>a_updated_at := 1700001000000\<rparr>"
      by presburger
    then have "a_updated_at (assignments ?d2 ! 0)
        = a_updated_at ((?fa (assignments sample_db ! 0))\<lparr>a_updated_at := 1700001000000\<rparr>)"
      by (rule arg_cong)
    also have "\<dots> = 1700001000000" by simp
    finally show ?thesis .
  qed
  from e1 c1 e2 c2 show ?thesis by blast
qed

section \<open>Reachable states\<close>

lemma exec_ok: "exec now d req = Inr d' \<Longrightarrow> unique_ok d' \<and> references_ok d'"
  by (cases req) (auto simp: commit_Inr split: sum.splits if_splits)

lemma reachable_ok: "reachable d \<Longrightarrow> unique_ok d \<and> references_ok d"
proof (induction rule: reachable.induct)
  case reachable_empty
  show ?case by (simp add: unique_ok_def references_ok_def user_roles_unique_def empty_db_def)
next
  case (reachable_exec d now req d')
  then show ?case using exec_ok by blast
qed

lemma distinct_key_filter:
  "distinct (map k xs) \<Longrightarrow> length (filter (\<lambda>x. k x = v) xs) \<le> 1"
proof (induction xs)
  case Nil
  show ?case by simp
next
  case (Cons x xs)
  show ?case
  proof (cases "k x = v")
    case True
    with Cons.prems have "\<forall>y\<in>set xs. k y \<noteq> v" by (metis distinct.simps(2) image_eqI list.simps(9) set_map)
    then have "filter (\<lambda>x. k x = v) xs = []" by (simp add: filter_empty_conv)
    with True show ?thesis by simp
  next
    case False
    with Cons show ?thesis by simp
  qed
qed

lemma exec_Insert_submissions_duplicate:
  assumes "r0 \<in> set (submissions d)"
    and "assignment_id r = assignment_id r0" "student_id r = student_id r0"
  shows "exec now d (Insert_submissions uid r) =
           Inl (if submissions_insert_check (user_roles d) uid r
                then Unique_violation else RLS_violation)"
proof -
  have "(assignment_id r, student_id r) \<in> set (map (\<lambda>s. (assignment_id s, student_id s)) (submissions d))"
    using assms by force
  then have "\<not> unique_ok (d\<lparr>submissions := submissions d @ [r]\<rparr>)"
    by (simp add: unique_ok_def)
  then show ?thesis by (simp add: commit_def)
qed

text \<open>
  C5. In every reachable state, for every assignment \<open>A\<close> and student \<open>S\<close>, at most one
  submission row has \<open>assignment_id = A\<close> and \<open>student_id = S\<close>. An insert of a row whose
  pair is that of a stored row fails, with \<open>Unique_violation\<close> when the policy admits the
  row and \<open>RLS_violation\<close> otherwise, and the stored state after it is the state before.
\<close>

theorem one_submission_per_pair:
  "(reachable d \<longrightarrow>
      length (filter (\<lambda>s. assignment_id s = A \<and> student_id s = S) (submissions d)) \<le> 1) \<and>
   (r0 \<in> set (submissions d) \<and> assignment_id r = assignment_id r0
      \<and> student_id r = student_id r0 \<longrightarrow>
      exec now d (Insert_submissions uid r) =
        Inl (if submissions_insert_check (user_roles d) uid r
             then Unique_violation else RLS_violation) \<and>
      apply_request now d (Insert_submissions uid r) = d)"
proof -
  have "length (filter (\<lambda>s. assignment_id s = A \<and> student_id s = S) (submissions d)) \<le> 1"
    if "reachable d"
  proof -
    from that have "distinct (map (\<lambda>s. (assignment_id s, student_id s)) (submissions d))"
      using reachable_ok by (auto simp: unique_ok_def)
    from distinct_key_filter [OF this, of "(A, S)"] show ?thesis by simp
  qed
  moreover have "exec now d (Insert_submissions uid r) =
        Inl (if submissions_insert_check (user_roles d) uid r
             then Unique_violation else RLS_violation) \<and>
      apply_request now d (Insert_submissions uid r) = d"
    if "r0 \<in> set (submissions d)" "assignment_id r = assignment_id r0"
      "student_id r = student_id r0"
    using exec_Insert_submissions_duplicate [OF that, of now uid]
    by (simp add: apply_request_def del: exec.simps)
  ultimately show ?thesis by blast
qed


lemma reachable_apply_request: "reachable d \<Longrightarrow> reachable (apply_request t d req)"
  using apply_request_cases [of t d req] reachable_exec [of d t req] by auto

lemma reachable_run: "reachable d \<Longrightarrow> reachable (run h d)"
  unfolding run_def
  by (induction h arbitrary: d) (auto simp: reachable_apply_request)

lemma run_sample_history: "run sample_history empty_db = sample_db"
  by code_simp


lemma sample_db_reachable: "reachable sample_db"
  using reachable_run [OF reachable_empty, of sample_history] by (simp add: run_sample_history)

theorem one_submission_per_pair_witness:
  "reachable sample_db \<and>
   length (filter (\<lambda>s. assignment_id s = uuid_assignment \<and> student_id s = uuid_student1)
             (submissions sample_db)) \<le> 1 \<and>
   sample_submission1 \<in> set (submissions sample_db) \<and>
   exec 1700001000000 sample_db
     (Insert_submissions (Some uuid_student1)
        (sample_submission1\<lparr>s_id := ''dddddddd-0000-4000-8000-000000000003'',
           status := submitted\<rparr>)) = Inl Unique_violation \<and>
   apply_request 1700001000000 sample_db
     (Insert_submissions (Some uuid_student1)
        (sample_submission1\<lparr>s_id := ''dddddddd-0000-4000-8000-000000000003'',
           status := submitted\<rparr>)) = sample_db"
proof -
  let ?r = "sample_submission1\<lparr>s_id := ''dddddddd-0000-4000-8000-000000000003'',
              status := submitted\<rparr>"
  have m: "sample_submission1 \<in> set (submissions sample_db)"
    by (simp add: sample_db_def)
  have k: "assignment_id ?r = assignment_id sample_submission1"
    "student_id ?r = student_id sample_submission1" by simp_all
  have c: "submissions_insert_check (user_roles sample_db) (Some uuid_student1) ?r"
    by (simp add: policy_defs has_role_def sample_defs)
  show ?thesis
    using sample_db_reachable m k c
      one_submission_per_pair [where d = sample_db and A = uuid_assignment
        and S = uuid_student1 and ?r0.0 = sample_submission1 and r = ?r
        and now = 1700001000000 and uid = "Some uuid_student1"]
    by (simp del: exec.simps)
qed

section \<open>Identity bootstrap\<close>

lemma exec_Update_profiles_ids:
  assumes "exec now d (Update_profiles uid wh f) = Inr d'"
  shows "map p_id (profiles d') = map p_id (profiles d)" and "auth_users d' = auth_users d"
proof -
  let ?g = "\<lambda>r. if wh r \<and> profiles_update_using uid r
                then update_profiles_updated_at now (f r) else r"
  from assms have chk: "\<forall>r\<in>set (profiles d). wh r \<and> profiles_update_using uid r
          \<longrightarrow> profiles_update_check uid (update_profiles_updated_at now (f r))"
    and d': "d' = d\<lparr>profiles := map ?g (profiles d)\<rparr>"
    unfolding exec_Update_profiles_Inr by simp_all
  have "p_id (?g r) = p_id r" if "r \<in> set (profiles d)" for r
    using chk that by (auto simp: policy_defs)
  then have "map p_id (map ?g (profiles d)) = map p_id (profiles d)"
    by (simp add: comp_def cong: map_cong)
  with d' show "map p_id (profiles d') = map p_id (profiles d)" by simp
  from d' show "auth_users d' = auth_users d" by simp
qed

lemma exec_keeps_profiles:
  assumes "exec now d req = Inr d'" "every_user_has_profile d"
  shows "every_user_has_profile d'"
proof (cases req)
  case (Create_user NEW)
  with assms show ?thesis
    by (auto simp: every_user_has_profile_def commit_Inr handle_new_user_def
        split: sum.splits option.splits)
next
  case (Delete_user x)
  with assms show ?thesis
    by (auto simp: every_user_has_profile_def commit_Inr delete_user_def
        delete_assignments_where_def Let_def)
next
  case (Update_profiles uid wh f)
  with assms exec_Update_profiles_ids [of now d uid wh f d'] show ?thesis
    by (simp add: every_user_has_profile_def del: exec.simps)
next
  case (Update_assignments uid wh f)
  with assms show ?thesis
    by (auto simp: every_user_has_profile_def exec_Update_assignments_Inr simp del: exec.simps)
next
  case (Update_submissions uid wh f)
  with assms show ?thesis
    by (auto simp: every_user_has_profile_def exec_Update_submissions_Inr simp del: exec.simps)
qed (use assms in \<open>auto simp: every_user_has_profile_def commit_Inr delete_assignments_where_def
       Let_def split: if_splits\<close>)

lemma reachable_profiles: "reachable d \<Longrightarrow> every_user_has_profile d"
proof (induction rule: reachable.induct)
  case reachable_empty
  show ?case by (simp add: every_user_has_profile_def empty_db_def)
next
  case (reachable_exec d now req d')
  then show ?case using exec_keeps_profiles by blast
qed


lemma exec_Create_user_Inr:
  assumes "exec now d (Create_user NEW) = Inr d'"
  shows "\<exists>e. u_email NEW = Some e \<and>
           d' = d\<lparr>auth_users := auth_users d @ [NEW],
                   profiles := profiles d @
                     [\<lparr>p_id = u_id NEW,
                       full_name = (case meta_full_name NEW of None \<Rightarrow> ''User'' | Some n \<Rightarrow> n),
                       email = e, p_created_at = now, p_updated_at = now\<rparr>]\<rparr>"
  using assms
  by (auto simp: handle_new_user_def commit_Inr split: option.splits sum.splits)

lemma exec_Create_user_Inl:
  assumes "u_email NEW = None \<or> u_id NEW \<in> set (map p_id (profiles d))"
  shows "\<exists>e. exec now d (Create_user NEW) = Inl e"
proof (cases "u_email NEW")
  case None
  then show ?thesis by (simp add: handle_new_user_def)
next
  case (Some e)
  with assms have "u_id NEW \<in> set (map p_id (profiles d))" by simp
  then have "\<not> unique_ok (d\<lparr>auth_users := auth_users d @ [NEW],
      profiles := profiles d @
         [\<lparr>p_id = u_id NEW,
           full_name = (case meta_full_name NEW of None \<Rightarrow> ''User'' | Some n \<Rightarrow> n),
           email = e, p_created_at = now, p_updated_at = now\<rparr>]\<rparr>)"
    by (simp add: unique_ok_def)
  with Some show ?thesis by (simp add: handle_new_user_def commit_def)
qed

text \<open>
  C7. When the creation of an identity succeeds, its row is added to \<open>auth.users\<close> and, in
  the same statement, one row is added to \<open>profiles\<close>: the identity's id, the
  \<open>full_name\<close> of the signup metadata or \<open>'User'\<close> when there is none, and the identity's
  email. When the trigger's insert fails, for want of an email or because a profile with
  this id exists, the creation fails and the state stays as it was. In every reachable
  state each identity has exactly one profile row with its id.
\<close>

theorem profile_bootstrap:
  "(exec now d (Create_user NEW) = Inr d' \<longrightarrow>
      (\<exists>e. u_email NEW = Some e \<and>
           auth_users d' = auth_users d @ [NEW] \<and>
           profiles d' = profiles d @
             [\<lparr>p_id = u_id NEW,
               full_name = (case meta_full_name NEW of None \<Rightarrow> ''User'' | Some n \<Rightarrow> n),
               email = e, p_created_at = now, p_updated_at = now\<rparr>])) \<and>
   (u_email NEW = None \<or> u_id NEW \<in> set (map p_id (profiles d)) \<longrightarrow>
      (\<exists>e. exec now d (Create_user NEW) = Inl e) \<and>
      apply_request now d (Create_user NEW) = d) \<and>
   (reachable d \<longrightarrow>
      (\<forall>u\<in>set (auth_users d). length (filter (\<lambda>p. p_id p = u_id u) (profiles d)) = 1))"
proof -
  have a: "\<exists>e. u_email NEW = Some e \<and>
           auth_users d' = auth_users d @ [NEW] \<and>
           profiles d' = profiles d @
             [\<lparr>p_id = u_id NEW,
               full_name = (case meta_full_name NEW of None \<Rightarrow> ''User'' | Some n \<Rightarrow> n),
               email = e, p_created_at = now, p_updated_at = now\<rparr>]"
    if "exec now d (Create_user NEW) = Inr d'"
    using exec_Create_user_Inr [OF that] by auto
  have b: "(\<exists>e. exec now d (Create_user NEW) = Inl e) \<and>
      apply_request now d (Create_user NEW) = d"
    if "u_email NEW = None \<or> u_id NEW \<in> set (map p_id (profiles d))"
    using exec_Create_user_Inl [OF that, of now]
    by (auto simp: apply_request_def simp del: exec.simps)
  have c: "length (filter (\<lambda>p. p_id p = u_id u) (profiles d)) = 1"
    if r: "reachable d" and u: "u \<in> set (auth_users d)" for u
  proof -
    from reachable_profiles [OF r] u have "u_id u \<in> set (map p_id (profiles d))"
      by (auto simp: every_user_has_profile_def)
    then have "filter (\<lambda>p. p_id p = u_id u) (profiles d) \<noteq> []"
      by (auto simp: filter_empty_conv)
    then have "length (filter (\<lambda>p. p_id p = u_id u) (profiles d)) \<ge> 1"
      by (cases "filter (\<lambda>p. p_id p = u_id u) (profiles d)") auto
    moreover from reachable_ok [OF r] have "distinct (map p_id (profiles d))"
      by (simp add: unique_ok_def)
    from distinct_key_filter [OF this, of "u_id u"]
    have "length (filter (\<lambda>p. p_id p = u_id u) (profiles d)) \<le> 1" .
    ultimately show ?thesis by linarith
  qed
  from a b c show ?thesis by blast
qed

theorem profile_bootstrap_witness:
  "exec 1700001000000 sample_db
     (Create_user \<lparr>u_id = ''bbbbbbbb-0000-4000-8000-000000000003'',
        u_email = Some ''s3@school.example'', meta_full_name = None\<rparr>)
     = Inr (sample_db\<lparr>auth_users := auth_users sample_db @
              [\<lparr>u_id = ''bbbbbbbb-0000-4000-8000-000000000003'',
                u_email = Some ''s3@school.example'', meta_full_name = None\<rparr>],
            profiles := profiles sample_db @
              [\<lparr>p_id = ''bbbbbbbb-0000-4000-8000-000000000003'', full_name = ''User'',
                email = ''s3@school.example'', p_created_at = 1700001000000,
                p_updated_at = 1700001000000\<rparr>]\<rparr>) \<and>
   apply_request 1700001000000 sample_db
     (Create_user \<lparr>u_id = ''bbbbbbbb-0000-4000-8000-000000000004'',
        u_email = None, meta_full_name = Some ''Pat''\<rparr>) = sample_db \<and>
   reachable sample_db \<and>
   length (filter (\<lambda>p. p_id p = u_id (auth_users sample_db ! 2)) (profiles sample_db)) = 1"
proof -
  let ?NEW = "\<lparr>u_id = ''bbbbbbbb-0000-4000-8000-000000000003'',
        u_email = Some ''s3@school.example'', meta_full_name = None\<rparr>"
  let ?d' = "sample_db\<lparr>auth_users := auth_users sample_db @ [?NEW],
            profiles := profiles sample_db @
              [\<lparr>p_id = ''bbbbbbbb-0000-4000-8000-000000000003'', full_name = ''User'',
                email = ''s3@school.example'', p_created_at = 1700001000000,
                p_updated_at = 1700001000000\<rparr>]\<rparr>"
  let ?BAD = "\<lparr>u_id = ''bbbbbbbb-0000-4000-8000-000000000004'',
        u_email = None, meta_full_name = Some ''Pat''\<rparr>"
  have e: "exec 1700001000000 sample_db (Create_user ?NEW) = Inr ?d'"
    by code_simp
  have m: "auth_users sample_db ! 2 \<in> set (auth_users sample_db)"
    by (simp add: sample_db_def)
  from sample_db_reachable
    profile_bootstrap [where now = 1700001000000 and d = sample_db and NEW = ?NEW
      and d' = ?d']
  have "\<forall>u\<in>set (auth_users sample_db).
      length (filter (\<lambda>p. p_id p = u_id u) (profiles sample_db)) = 1"
    by blast
  with m have one:
    "length (filter (\<lambda>p. p_id p = u_id (auth_users sample_db ! 2)) (profiles sample_db)) = 1"
    by blast
  have bad: "apply_request 1700001000000 sample_db (Create_user ?BAD) = sample_db"
    using profile_bootstrap [where now = 1700001000000 and d = sample_db and NEW = ?BAD]
    by (simp del: exec.simps)
  from e bad sample_db_reachable one show ?thesis by blast
qed

section \<open>Stored files\<close>

lemma split_on_nonempty: "split_on c s \<noteq> []"
  by (induction s) (auto split: list.splits)

lemma split_on_no_sep: "c \<notin> set s \<Longrightarrow> split_on c s = [s]"
  by (induction s) auto

lemma split_on_sep: "c \<in> set s \<Longrightarrow> \<exists>x y ys. split_on c s = x # y # ys"
proof (induction s)
  case Nil
  then show ?case by simp
next
  case (Cons a s)
  show ?case
  proof (cases "a = c")
    case True
    obtain y ys where "split_on c s = y # ys"
      using split_on_nonempty [of c s] by (cases "split_on c s") auto
    with True show ?thesis by simp
  next
    case False
    with Cons.prems have "c \<in> set s" by simp
    from Cons.IH [OF this] obtain x y ys where "split_on c s = x # y # ys" by blast
    with False show ?thesis by simp
  qed
qed

lemma split_on_prefix: "c \<notin> set u \<Longrightarrow> split_on c (u @ c # rest) = u # split_on c rest"
  by (induction u) auto

lemma array_first_foldername:
  "array_first (foldername nm) =
     (if CHR ''/'' \<in> set nm then first_path_segment nm else None)"
proof (cases "CHR ''/'' \<in> set nm")
  case True
  then have ne: "nm \<noteq> []" by auto
  from split_on_sep [OF True] obtain x y ys where "split_on (CHR ''/'') nm = x # y # ys"
    by blast
  with True ne show ?thesis
    by (simp add: foldername_def first_path_segment_def string_to_array_def array_first_def)
next
  case False
  then show ?thesis
    by (simp add: foldername_def string_to_array_def array_first_def split_on_no_sep)
qed

lemma uuid_text_no_slash: "is_uuid_text u \<Longrightarrow> CHR ''/'' \<notin> set u"
  by (auto simp: is_uuid_text_def list_all_iff)

lemma filePath_first_segment:
  assumes "is_uuid_text u"
  shows "CHR ''/'' \<in> set (filePath u id_param date_now fname)"
    and "first_path_segment (filePath u id_param date_now fname) = Some u"
proof -
  let ?rest = "(case id_param of None \<Rightarrow> ''undefined'' | Some i \<Rightarrow> i) @ ''/''
       @ show_nat date_now @ ''.'' @ fileExt fname"
  have p: "filePath u id_param date_now fname = u @ CHR ''/'' # ?rest"
    by (simp add: filePath_def)
  show "CHR ''/'' \<in> set (filePath u id_param date_now fname)"
    unfolding p by simp
  have "split_on (CHR ''/'') (u @ CHR ''/'' # ?rest) = u # split_on (CHR ''/'') ?rest"
    using assms by (intro split_on_prefix uuid_text_no_slash)
  then show "first_path_segment (filePath u id_param date_now fname) = Some u"
    unfolding p by (simp add: first_path_segment_def string_to_array_def array_first_def)
qed

text \<open>
  C4, as the code has it. In the bucket \<open>submissions\<close>, an actor \<open>X\<close> may insert an object
  named \<open>p\<close> exactly when \<open>p\<close> has a folder part (it contains \<open>/\<close>) and \<open>X\<close> is its first
  path segment, and may read it exactly when that holds or \<open>X\<close> has the teacher role. The
  path \<open>handleSubmit\<close> builds for a student has a folder part, and its first segment is the
  student's identity.
\<close>

theorem stored_file_access:
  "(objects_insert_check (Some X) \<lparr>bucket_id = ''submissions'', name = p\<rparr> \<longleftrightarrow>
      CHR ''/'' \<in> set p \<and> first_path_segment p = Some X) \<and>
   (objects_select ur (Some X) \<lparr>bucket_id = ''submissions'', name = p\<rparr> \<longleftrightarrow>
      (CHR ''/'' \<in> set p \<and> first_path_segment p = Some X) \<or> has_role ur (Some X) teacher) \<and>
   (is_uuid_text u \<longrightarrow>
      CHR ''/'' \<in> set (filePath u id_param date_now fname) \<and>
      first_path_segment (filePath u id_param date_now fname) = Some u)"
proof -
  have own: "Some X = array_first (foldername p) \<longleftrightarrow>
      CHR ''/'' \<in> set p \<and> first_path_segment p = Some X"
    by (auto simp: array_first_foldername)
  have ins: "objects_insert_check (Some X) \<lparr>bucket_id = ''submissions'', name = p\<rparr> \<longleftrightarrow>
      CHR ''/'' \<in> set p \<and> first_path_segment p = Some X"
    using own by (simp add: objects_insert_check_def Students_can_upload_their_own_submissions_def)
  have sel: "objects_select ur (Some X) \<lparr>bucket_id = ''submissions'', name = p\<rparr> \<longleftrightarrow>
      (CHR ''/'' \<in> set p \<and> first_path_segment p = Some X) \<or> has_role ur (Some X) teacher"
    using own
    by (simp add: objects_select_def Students_can_view_their_own_files_def
        Teachers_can_view_all_submission_files_def Teachers_can_download_submission_files_def)
  from ins sel filePath_first_segment [of u id_param date_now fname] show ?thesis by blast
qed

theorem stored_file_access_witness:
  "is_uuid_text uuid_student2 \<and>
   first_path_segment (filePath uuid_student2 (Some uuid_assignment) 1700000100000 ''essay.pdf'')
     = Some uuid_student2 \<and>
   objects_insert_check (Some uuid_student2)
     \<lparr>bucket_id = ''submissions'',
      name = filePath uuid_student2 (Some uuid_assignment) 1700000100000 ''essay.pdf''\<rparr> \<and>
   \<not> objects_insert_check (Some uuid_student1)
     \<lparr>bucket_id = ''submissions'',
      name = filePath uuid_student2 (Some uuid_assignment) 1700000100000 ''essay.pdf''\<rparr> \<and>
   objects_select sample_roles (Some uuid_teacher)
     \<lparr>bucket_id = ''submissions'',
      name = filePath uuid_student2 (Some uuid_assignment) 1700000100000 ''essay.pdf''\<rparr>"
proof -
  let ?p = "filePath uuid_student2 (Some uuid_assignment) 1700000100000 ''essay.pdf''"
  have h: "is_uuid_text uuid_student2"
    by (simp add: is_uuid_text_def uuid_student2_def)
  have t: "has_role sample_roles (Some uuid_teacher) teacher"
    by (simp add: has_role_def sample_defs)
  have ne: "uuid_student2 \<noteq> uuid_student1" by (simp add: sample_defs)
  show ?thesis
    using h t ne
      stored_file_access [where X = uuid_student2 and p = ?p and u = uuid_student2
        and id_param = "Some uuid_assignment" and date_now = 1700000100000
        and fname = "''essay.pdf''" and ur = sample_roles]
      stored_file_access [where X = uuid_student1 and p = ?p and u = uuid_student2
        and id_param = "Some uuid_assignment" and date_now = 1700000100000
        and fname = "''essay.pdf''" and ur = sample_roles]
      stored_file_access [where X = uuid_teacher and p = ?p and u = uuid_student2
        and id_param = "Some uuid_assignment" and date_now = 1700000100000
        and fname = "''essay.pdf''" and ur = sample_roles]
    by (simp del: show_nat.simps)
qed

text \<open>
  C4, as stated, fails on an object in the root of the bucket whose name is the actor's
  identity: the actor equals the first path segment of the name, and may neither insert
  nor, without the teacher role, read it, since \<open>storage.foldername\<close> of the name is empty.
\<close>

theorem stored_file_root_counterexample:
  "is_uuid_text uuid_student1 \<and>
   first_path_segment uuid_student1 = Some uuid_student1 \<and>
   \<not> objects_insert_check (Some uuid_student1)
       \<lparr>bucket_id = ''submissions'', name = uuid_student1\<rparr> \<and>
   \<not> objects_select sample_roles (Some uuid_student1)
       \<lparr>bucket_id = ''submissions'', name = uuid_student1\<rparr>"
  by (simp add: is_uuid_text_def first_path_segment_def string_to_array_def array_first_def
      foldername_def objects_insert_check_def objects_select_def
      Students_can_upload_their_own_submissions_def Students_can_view_their_own_files_def
      Teachers_can_view_all_submission_files_def Teachers_can_download_submission_files_def
      has_role_def sample_defs)

section \<open>Status of a submission\<close>














section \<open>Validation of a grade\<close>

text \<open>
  \<open>handleGradeSubmit\<close> issues its update exactly for a finite grade between 0 and the
  bound \<open>max_score || 100\<close>, and without an update the state stays as it was. The bound is
  the assignment's \<open>max_score\<close> unless that is 0.
\<close>

lemma handleGradeSubmit_issued:
  "fst (handleGradeSubmit now date d uid (Some s) g fbv) \<noteq> None \<longleftrightarrow>
     (\<exists>q. g = Num q \<and> 0 \<le> q \<and> q \<le> of_int (max_score_or_100 s))"
  by (cases g)
    (auto simp: handleGradeSubmit_def Let_def isNaN_def simp del: exec.simps
      split: sum.splits)

lemma handleGradeSubmit_not_issued:
  "fst (handleGradeSubmit now date d uid sel g fbv) = None \<Longrightarrow>
     snd (snd (handleGradeSubmit now date d uid sel g fbv)) = d"
  by (auto simp: handleGradeSubmit_def Let_def simp del: exec.simps
      split: option.splits sum.splits if_splits)

lemma max_score_or_100_nonzero:
  "sel_assignment s = Some a \<Longrightarrow> ja_max_score a \<noteq> 0 \<Longrightarrow> max_score_or_100 s = ja_max_score a"
  by (simp add: max_score_or_100_def)

text \<open>
  C10 asks that no update is issued for a grade above the assignment's \<open>max_score\<close>. For
  an assignment of 0 points \<open>||\<close> replaces the bound by 100: a teacher's grade of 50 is
  sent and stored, with status \<open>graded\<close>.
\<close>

theorem handleGradeSubmit_zero_max_score:
  "handleGradeSubmit 1700001000100 1700001000000 zero_points_db (Some uuid_teacher)
     (Some zero_points_selected) (Num 50) ''''
     = (Some \<lparr>gu_id = s_id sample_submission2, gu_grade = Num 50, gu_feedback = None,
              gu_status = graded, gu_graded_at = 1700001000000\<rparr>,
        Success,
        zero_points_db\<lparr>submissions :=
          [sample_submission1,
           sample_submission2\<lparr>grade := Some 50, feedback := None, status := graded,
             graded_at := Some 1700001000000\<rparr>]\<rparr>)"
  by code_simp

end
